theory Spec2Isabelle
  imports Complex_Main
begin

section \<open>Numbers of the C program\<close>

text \<open>
  The program is \<^verbatim>\<open>src/energy.c\<close> of the R package energy. It computes with C
  \<^verbatim>\<open>int\<close> and \<^verbatim>\<open>double\<close>.

  A C \<^verbatim>\<open>int\<close> is modelled as an \<open>int\<close> of HOL. Where the source adds or multiplies
  sizes (\<^verbatim>\<open>m*m\<close>, \<^verbatim>\<open>m*n\<close>, \<^verbatim>\<open>m+n\<close>, the prefix sums of the sizes, \<^verbatim>\<open>B+1\<close>) the
  result is cut to 32 bits two's complement by \<open>cint\<close>, the wrap-around of the usual
  targets (the C standard leaves signed overflow undefined). Loop counters are
  incremented below a bound that is itself an \<^verbatim>\<open>int\<close>, so they never wrap.
\<close>

definition cint :: "int \<Rightarrow> int" where
  "cint x = (x + 2147483648) mod 4294967296 - 2147483648"

text \<open>
  A \<^verbatim>\<open>double\<close> is modelled as a real number or one of the three special values of
  IEEE 754. Finite values are computed exactly: rounding, overflow of a finite result
  to an infinity and the sign of zero are not modelled here (the rounded operations are
  those of the section on IEEE 754 arithmetic below). The special values follow
  IEEE 754: a NaN absorbs every operation, \<open>\<infinity> - \<infinity>\<close> and \<open>0 * \<infinity>\<close> are NaN, and
  a division by zero gives an infinity, or NaN for \<open>0 / 0\<close>. Every divisor of the
  program is the conversion of an \<^verbatim>\<open>int\<close>, so a zero divisor is always \<open>+0\<close>.
\<close>

datatype double = Fin real | PInf | NInf | NaN

instantiation double :: "{zero, one, plus, uminus, minus, times, divide, ord}"
begin

definition zero_double :: double where
  "zero_double = Fin 0"

definition one_double :: double where
  "one_double = Fin 1"

fun plus_double :: "double \<Rightarrow> double \<Rightarrow> double" where
  "plus_double (Fin a) (Fin b) = Fin (a + b)"
| "plus_double NaN y = NaN"
| "plus_double x NaN = NaN"
| "plus_double PInf NInf = NaN"
| "plus_double NInf PInf = NaN"
| "plus_double PInf y = PInf"
| "plus_double NInf y = NInf"
| "plus_double x PInf = PInf"
| "plus_double x NInf = NInf"

fun uminus_double :: "double \<Rightarrow> double" where
  "uminus_double (Fin a) = Fin (- a)"
| "uminus_double PInf = NInf"
| "uminus_double NInf = PInf"
| "uminus_double NaN = NaN"

definition minus_double :: "double \<Rightarrow> double \<Rightarrow> double" where
  "minus_double x y = ((x :: double) + (- y))"

text \<open>The sign of a product or quotient with an infinity: \<open>inf_of positive\<close>.\<close>

fun inf_of :: "bool \<Rightarrow> double" where
  "inf_of True = PInf"
| "inf_of False = NInf"

fun times_double :: "double \<Rightarrow> double \<Rightarrow> double" where
  "times_double (Fin a) (Fin b) = Fin (a * b)"
| "times_double NaN y = NaN"
| "times_double x NaN = NaN"
| "times_double (Fin a) PInf = (if a = 0 then NaN else inf_of (0 < a))"
| "times_double (Fin a) NInf = (if a = 0 then NaN else inf_of (a < 0))"
| "times_double PInf (Fin b) = (if b = 0 then NaN else inf_of (0 < b))"
| "times_double NInf (Fin b) = (if b = 0 then NaN else inf_of (b < 0))"
| "times_double PInf PInf = PInf"
| "times_double PInf NInf = NInf"
| "times_double NInf PInf = NInf"
| "times_double NInf NInf = PInf"

fun divide_double :: "double \<Rightarrow> double \<Rightarrow> double" where
  "divide_double (Fin a) (Fin b) =
     (if b = 0 then (if a = 0 then NaN else inf_of (0 < a)) else Fin (a / b))"
| "divide_double NaN y = NaN"
| "divide_double x NaN = NaN"
| "divide_double (Fin a) PInf = Fin 0"
| "divide_double (Fin a) NInf = Fin 0"
| "divide_double PInf (Fin b) = inf_of (0 \<le> b)"
| "divide_double NInf (Fin b) = inf_of (b < 0)"
| "divide_double PInf y = NaN"
| "divide_double NInf y = NaN"

text \<open>The comparisons of C: every comparison with a NaN is false.\<close>

fun less_double :: "double \<Rightarrow> double \<Rightarrow> bool" where
  "less_double (Fin a) (Fin b) = (a < b)"
| "less_double NaN y = False"
| "less_double x NaN = False"
| "less_double x NInf = False"
| "less_double PInf y = False"
| "less_double NInf y = True"
| "less_double x PInf = True"

fun less_eq_double :: "double \<Rightarrow> double \<Rightarrow> bool" where
  "less_eq_double (Fin a) (Fin b) = (a \<le> b)"
| "less_eq_double NaN y = False"
| "less_eq_double x NaN = False"
| "less_eq_double NInf y = True"
| "less_eq_double x PInf = True"
| "less_eq_double x NInf = False"
| "less_eq_double PInf y = False"

instance ..

end

instantiation double :: inverse
begin

definition inverse_double :: "double \<Rightarrow> double" where
  "inverse_double x = divide (Fin 1) x"

instance ..

end

text \<open>The conversion \<^verbatim>\<open>(double) k\<close> of an \<^verbatim>\<open>int\<close>: exact.\<close>

definition double_of_int :: "int \<Rightarrow> double" where
  "double_of_int k = Fin (of_int k)"

text \<open>\<^verbatim>\<open>sqrt\<close> of the C library.\<close>

fun dsqrt :: "double \<Rightarrow> double" where
  "dsqrt (Fin a) = (if a < 0 then NaN else Fin (sqrt a))"
| "dsqrt PInf = PInf"
| "dsqrt NInf = NaN"
| "dsqrt NaN = NaN"

section \<open>Loops\<close>

text \<open>
  \<^verbatim>\<open>for (i = a; i < n; i++) s = body(i, s);\<close> with the variables the body assigns
  collected in \<open>s\<close>.
\<close>

function for_loop :: "int \<Rightarrow> int \<Rightarrow> (int \<Rightarrow> 's \<Rightarrow> 's) \<Rightarrow> 's \<Rightarrow> 's" where
  "for_loop i n body s = (if i < n then for_loop (i + 1) n body (body i s) else s)"
  by pat_completeness auto
termination
  by (relation "measure (\<lambda>(i, n, body, s). nat (n - i))") auto

declare for_loop.simps [simp del]

section \<open>The two-sample statistic\<close>

text \<open>
  \<^verbatim>\<open>double twosampleE(double **D, int m, int n, int *xrows, int *yrows, int unbiased)\<close>.
  The matrix and the two index arrays are read only; they are functions of the index.
\<close>

definition twosampleE ::
  "(int \<Rightarrow> int \<Rightarrow> double) \<Rightarrow> int \<Rightarrow> int \<Rightarrow> (int \<Rightarrow> int) \<Rightarrow> (int \<Rightarrow> int) \<Rightarrow> int \<Rightarrow> double"
where
  "twosampleE D m n xrows yrows unbiased =
    (if m < 1 \<or> n < 1 then Fin 0
     else
       let sumxx = for_loop 0 m (\<lambda>i. for_loop (i + 1) m
                     (\<lambda>j sumxx. sumxx + D (xrows i) (xrows j))) (Fin 0);
           sumxx = sumxx * (Fin 2 / double_of_int (cint (m * m)));
           sumyy = for_loop 0 n (\<lambda>i. for_loop (i + 1) n
                     (\<lambda>j sumyy. sumyy + D (yrows i) (yrows j))) (Fin 0);
           sumyy = sumyy * (Fin 2 / double_of_int (cint (n * n)));
           sumxx = (if unbiased = 1
                    then sumxx * (double_of_int m / double_of_int (m - 1)) else sumxx);
           sumyy = (if unbiased = 1
                    then sumyy * (double_of_int n / double_of_int (n - 1)) else sumyy);
           sumxy = for_loop 0 m (\<lambda>i. for_loop 0 n
                     (\<lambda>j sumxy. sumxy + D (xrows i) (yrows j))) (Fin 0);
           sumxy = sumxy / double_of_int (cint (m * n))
       in double_of_int (cint (m * n)) / double_of_int (cint (m + n))
            * (Fin 2 * sumxy - sumxx - sumyy))"

section \<open>The multi-sample statistic\<close>

text \<open>
  \<^verbatim>\<open>double multisampleE(double **D, int nsamples, int *sizes, int *perm, int unbiased)\<close>.
  \<^verbatim>\<open>M\<close> comes zero-filled from \<^verbatim>\<open>Calloc\<close>; \<^verbatim>\<open>perm+M[i]\<close> is the array whose entry \<open>t\<close>
  is \<^verbatim>\<open>perm[M[i]+t]\<close> (address arithmetic, no \<^verbatim>\<open>int\<close> overflow). The model is of the
  calls with \<open>nsamples \<ge> 1\<close>: for a negative \<open>nsamples\<close> the \<^verbatim>\<open>Calloc\<close> of R raises its
  allocation error, and for \<open>nsamples = 0\<close> the assignment \<^verbatim>\<open>M[0] = 0\<close> is outside the
  array; neither is modelled.
\<close>

definition multisampleE ::
  "(int \<Rightarrow> int \<Rightarrow> double) \<Rightarrow> int \<Rightarrow> (int \<Rightarrow> int) \<Rightarrow> (int \<Rightarrow> int) \<Rightarrow> int \<Rightarrow> double"
where
  "multisampleE D nsamples sizes perm unbiased =
    (let M = (\<lambda>k. 0)(0 := 0);
         M = for_loop 1 nsamples (\<lambda>k M. M(k := cint (M (k - 1) + sizes (k - 1)))) M
     in for_loop 0 nsamples (\<lambda>i.
          let m = sizes i
          in for_loop (i + 1) nsamples (\<lambda>j e.
               let n = sizes j
               in e + twosampleE D m n (\<lambda>t. perm (M i + t)) (\<lambda>t. perm (M j + t)) unbiased))
          (Fin 0))"

section \<open>The two-sample statistic from the data\<close>

text \<open>
  The innermost loop of \<^verbatim>\<open>E2sample\<close>, which the source writes out three times:
  \<^verbatim>\<open>dsum = 0.0; for (k=0; k<d; k++) { dif = *(x+p+k) - *(x+q+k); dsum += dif*dif; }\<close>
\<close>

definition sqdist :: "(int \<Rightarrow> double) \<Rightarrow> int \<Rightarrow> int \<Rightarrow> int \<Rightarrow> double" where
  "sqdist x d p q =
     for_loop 0 d (\<lambda>k dsum. let dif = x (p + k) - x (q + k) in dsum + dif * dif) (Fin 0)"

text \<open>
  \<^verbatim>\<open>void E2sample(double *x, int *sizes, int *dim, double *stat)\<close>; the result is the
  value stored in \<^verbatim>\<open>*stat\<close>.
\<close>

definition E2sample :: "(int \<Rightarrow> double) \<Rightarrow> (int \<Rightarrow> int) \<Rightarrow> int \<Rightarrow> double" where
  "E2sample x sizes dimn =
    (let m = sizes 0; n = sizes 1; d = dimn;
         sumxy = for_loop 0 m (\<lambda>i. let p = cint (i * d) in
                   for_loop m (cint (m + n)) (\<lambda>j sumxy. let q = cint (j * d) in
                     sumxy + dsqrt (sqdist x d p q))) (Fin 0);
         sumxy = sumxy / double_of_int (cint (m * n));
         sumxx = for_loop 1 m (\<lambda>i. let p = cint (i * d) in
                   for_loop 0 i (\<lambda>j sumxx. let q = cint (j * d) in
                     sumxx + dsqrt (sqdist x d p q))) (Fin 0);
         sumxx = sumxx / double_of_int (cint (m * m));
         sumyy = for_loop (cint (m + 1)) (cint (m + n)) (\<lambda>i. let p = cint (i * d) in
                   for_loop m i (\<lambda>j sumyy. let q = cint (j * d) in
                     sumyy + dsqrt (sqdist x d p q))) (Fin 0);
         sumyy = sumyy / double_of_int (cint (n * n));
         w = double_of_int (cint (m * n)) / double_of_int (cint (m + n))
     in Fin 2 * w * (sumxy - sumxx - sumyy))"

text \<open>
  The distance of the rows \<open>i\<close> and \<open>j\<close> as \<open>E2sample\<close> computes it from the buffer: the
  square root of the innermost loop at \<open>p = i * d\<close> and \<open>q = j * d\<close>.
\<close>

definition row_distance :: "(int \<Rightarrow> double) \<Rightarrow> int \<Rightarrow> int \<Rightarrow> int \<Rightarrow> double" where
  "row_distance x d i j = dsqrt (sqdist x d (cint (i * d)) (cint (j * d)))"

text \<open>
  Modelled from the spec: the pairwise Euclidean distance matrix of a pooled sample with
  \<open>d\<close> columns stored in row order (the work of \<^verbatim>\<open>Euclidean_distance\<close> and \<^verbatim>\<open>distance\<close>
  of \<^verbatim>\<open>utilities.c\<close>, which \<^verbatim>\<open>energy.c\<close> only declares). Entry \<open>(i, j)\<close> is the Euclidean
  distance between row \<open>i\<close> and row \<open>j\<close>, a real number, defined without any part of the
  code it is compared with.
\<close>

definition Euclidean_distance :: "(int \<Rightarrow> real) \<Rightarrow> int \<Rightarrow> int \<Rightarrow> int \<Rightarrow> real" where
  "Euclidean_distance x d i j = sqrt (\<Sum>k = 0..<d. (x (i * d + k) - x (j * d + k))\<^sup>2)"

section \<open>The statistics in IEEE 754 arithmetic\<close>

text \<open>
  The arithmetic above is exact. A C \<^verbatim>\<open>double\<close> operation returns the exact result
  rounded to the nearest binary64 number, ties to the even significand. \<open>round_even\<close>
  rounds a real to the nearest integer, ties to even.
\<close>

definition round_even :: "real \<Rightarrow> int" where
  "round_even q =
     (let f = \<lfloor>q\<rfloor>; r = q - of_int f
      in if r < 1 / 2 then f else if 1 / 2 < r then f + 1 else if even f then f else f + 1)"

text \<open>
  The binade of \<open>a \<ge> 0\<close>: the exponent \<open>e\<close> with \<open>2\<^sup>e \<le> a < 2\<^sup>e\<^sup>+\<^sup>1\<close>, searched upwards
  from \<open>e0\<close> in at most \<open>k\<close> steps. From \<open>-1022\<close> in \<open>2045\<close> steps it is the exponent of a
  binary64 number: \<open>-1022\<close> for the subnormal numbers and zero, at most \<open>1023\<close>.
\<close>

fun binade :: "real \<Rightarrow> int \<Rightarrow> nat \<Rightarrow> int" where
  "binade a e 0 = e"
| "binade a e (Suc k) = (if a < 2 powi (e + 1) then e else binade a (e + 1) k)"

text \<open>
  Rounding to binary64: to the nearest multiple of the unit in the last place
  \<open>2\<^sup>e\<^sup>-\<^sup>5\<^sup>2\<close> of the binade, to an infinity from \<open>2\<^sup>1\<^sup>0\<^sup>2\<^sup>4\<close> on.
\<close>

definition ieee_round :: "real \<Rightarrow> double" where
  "ieee_round x =
     (let e = binade \<bar>x\<bar> (- 1022) 2045; u = 2 powi (e - 52);
          y = u * of_int (round_even (x / u))
      in if 2 powi 1024 \<le> \<bar>y\<bar> then inf_of (0 < y) else Fin y)"

fun rnd :: "double \<Rightarrow> double" where
  "rnd (Fin x) = ieee_round x"
| "rnd PInf = PInf"
| "rnd NInf = NInf"
| "rnd NaN = NaN"

text \<open>
  The operations of C on \<^verbatim>\<open>double\<close>: the exact result, rounded, each operation on its
  own (every intermediate result is a binary64 number, no fused multiplication and
  addition). \<^verbatim>\<open>sqrt\<close> is rounded correctly, as IEEE 754 asks.
\<close>

definition fadd :: "double \<Rightarrow> double \<Rightarrow> double" where
  "fadd a b = rnd (a + b)"

definition fsub :: "double \<Rightarrow> double \<Rightarrow> double" where
  "fsub a b = rnd (a - b)"

definition fmul :: "double \<Rightarrow> double \<Rightarrow> double" where
  "fmul a b = rnd (a * b)"

definition fdiv :: "double \<Rightarrow> double \<Rightarrow> double" where
  "fdiv a b = rnd (a / b)"

definition fsqrt :: "double \<Rightarrow> double" where
  "fsqrt a = rnd (dsqrt a)"

text \<open>
  \<^verbatim>\<open>twosampleE\<close> of the source once more, statement by statement as \<open>twosampleE\<close> above,
  with every operation rounded. The conversion of an \<^verbatim>\<open>int\<close> of 32 bits is exact.
\<close>

definition twosampleE_ieee ::
  "(int \<Rightarrow> int \<Rightarrow> double) \<Rightarrow> int \<Rightarrow> int \<Rightarrow> (int \<Rightarrow> int) \<Rightarrow> (int \<Rightarrow> int) \<Rightarrow> int \<Rightarrow> double"
where
  "twosampleE_ieee D m n xrows yrows unbiased =
    (if m < 1 \<or> n < 1 then Fin 0
     else
       let sumxx = for_loop 0 m (\<lambda>i. for_loop (i + 1) m
                     (\<lambda>j sumxx. fadd sumxx (D (xrows i) (xrows j)))) (Fin 0);
           sumxx = fmul sumxx (fdiv (Fin 2) (double_of_int (cint (m * m))));
           sumyy = for_loop 0 n (\<lambda>i. for_loop (i + 1) n
                     (\<lambda>j sumyy. fadd sumyy (D (yrows i) (yrows j)))) (Fin 0);
           sumyy = fmul sumyy (fdiv (Fin 2) (double_of_int (cint (n * n))));
           sumxx = (if unbiased = 1
                    then fmul sumxx (fdiv (double_of_int m) (double_of_int (m - 1))) else sumxx);
           sumyy = (if unbiased = 1
                    then fmul sumyy (fdiv (double_of_int n) (double_of_int (n - 1))) else sumyy);
           sumxy = for_loop 0 m (\<lambda>i. for_loop 0 n
                     (\<lambda>j sumxy. fadd sumxy (D (xrows i) (yrows j)))) (Fin 0);
           sumxy = fdiv sumxy (double_of_int (cint (m * n)))
       in fmul (fdiv (double_of_int (cint (m * n))) (double_of_int (cint (m + n))))
            (fsub (fsub (fmul (Fin 2) sumxy) sumxx) sumyy))"

text \<open>\<^verbatim>\<open>E2sample\<close> and its innermost loop once more, with every operation rounded.\<close>

definition sqdist_ieee :: "(int \<Rightarrow> double) \<Rightarrow> int \<Rightarrow> int \<Rightarrow> int \<Rightarrow> double" where
  "sqdist_ieee x d p q =
     for_loop 0 d (\<lambda>k dsum. let dif = fsub (x (p + k)) (x (q + k)) in fadd dsum (fmul dif dif))
       (Fin 0)"

definition E2sample_ieee :: "(int \<Rightarrow> double) \<Rightarrow> (int \<Rightarrow> int) \<Rightarrow> int \<Rightarrow> double" where
  "E2sample_ieee x sizes dimn =
    (let m = sizes 0; n = sizes 1; d = dimn;
         sumxy = for_loop 0 m (\<lambda>i. let p = cint (i * d) in
                   for_loop m (cint (m + n)) (\<lambda>j sumxy. let q = cint (j * d) in
                     fadd sumxy (fsqrt (sqdist_ieee x d p q)))) (Fin 0);
         sumxy = fdiv sumxy (double_of_int (cint (m * n)));
         sumxx = for_loop 1 m (\<lambda>i. let p = cint (i * d) in
                   for_loop 0 i (\<lambda>j sumxx. let q = cint (j * d) in
                     fadd sumxx (fsqrt (sqdist_ieee x d p q)))) (Fin 0);
         sumxx = fdiv sumxx (double_of_int (cint (m * m)));
         sumyy = for_loop (cint (m + 1)) (cint (m + n)) (\<lambda>i. let p = cint (i * d) in
                   for_loop m i (\<lambda>j sumyy. let q = cint (j * d) in
                     fadd sumyy (fsqrt (sqdist_ieee x d p q)))) (Fin 0);
         sumyy = fdiv sumyy (double_of_int (cint (n * n)));
         w = fdiv (double_of_int (cint (m * n))) (double_of_int (cint (m + n)))
     in fmul (fmul (Fin 2) w) (fsub (fsub sumxy sumxx) sumyy))"

section \<open>The permutation test\<close>

text \<open>
  The collaborators of \<^verbatim>\<open>utilities.c\<close> and of R that \<^verbatim>\<open>ksampleEtest\<close> calls are
  parameters of the model:
  \<^item> \<^verbatim>\<open>permute(perm, N)\<close> shuffles the array in place from R's random number
    generator, whose state \<open>'g\<close> it advances (\<^verbatim>\<open>GetRNGstate\<close>, \<^verbatim>\<open>PutRNGstate\<close>);
  \<^item> \<^verbatim>\<open>vector2matrix(x, y, N, d, isroworder)\<close> fills the matrix \<open>y\<close> from the buffer
    \<open>x\<close>, which it reads;
  \<^item> \<^verbatim>\<open>distance(data, D, N, d)\<close> fills \<open>D\<close> from the sample matrix.
\<close>

record 'g externals =
  permute :: "'g \<Rightarrow> (int \<Rightarrow> int) \<Rightarrow> int \<Rightarrow> (int \<Rightarrow> int) \<times> 'g"
  vector2matrix :: "(int \<Rightarrow> double) \<Rightarrow> int \<Rightarrow> int \<Rightarrow> int \<Rightarrow> int \<Rightarrow> int \<Rightarrow> double"
  distance :: "(int \<Rightarrow> int \<Rightarrow> double) \<Rightarrow> int \<Rightarrow> int \<Rightarrow> int \<Rightarrow> int \<Rightarrow> double"

text \<open>
  The memory \<^verbatim>\<open>ksampleEtest\<close> works on: the caller's buffer \<^verbatim>\<open>x\<close>, the cells
  \<^verbatim>\<open>*e0\<close>, \<^verbatim>\<open>e[]\<close> and \<^verbatim>\<open>*pval\<close> the caller passes for the results, the local
  arrays \<^verbatim>\<open>D\<close> and \<^verbatim>\<open>perm\<close>, the counter \<^verbatim>\<open>ek\<close> and the generator's state.
  Every assignment of the source is an update of one field. The fields are distinct
  objects: R passes each argument of the call as a vector of its own.
\<close>

record 'g driver =
  x_buf :: "int \<Rightarrow> double"
  D_mat :: "int \<Rightarrow> int \<Rightarrow> double"
  perm_arr :: "int \<Rightarrow> int"
  e0_out :: double
  e_out :: "int \<Rightarrow> double"
  pval_out :: double
  ek_cnt :: int
  rng_state :: 'g

text \<open>The body of the replicate loop, for the replicate \<open>b\<close>.\<close>

definition replicate_body ::
  "'g externals \<Rightarrow> int \<Rightarrow> (int \<Rightarrow> int) \<Rightarrow> int \<Rightarrow> int \<Rightarrow> int \<Rightarrow> 'g driver \<Rightarrow> 'g driver"
where
  "replicate_body ext K sizes N U b s =
    (let (p, g) = permute ext (rng_state s) (perm_arr s) N;
         s = s\<lparr>perm_arr := p, rng_state := g\<rparr>;
         s = s\<lparr>e_out := (e_out s)(b := multisampleE (D_mat s) K sizes (perm_arr s) U)\<rparr>
     in if e0_out s < e_out s b then s\<lparr>ek_cnt := cint (ek_cnt s + 1)\<rparr> else s)"

text \<open>
  \<^verbatim>\<open>void ksampleEtest(double *x, int *byrow, int *nsamples, int *sizes, int *dim,
  int *R, double *e0, double *e, double *pval, int *U)\<close>. The source has no
  \<^verbatim>\<open>return\<close> and no call of \<^verbatim>\<open>error\<close>; the result is the memory as it is before the two
  arrays are freed. \<^verbatim>\<open>Calloc\<close> hands out zero-filled arrays. The model is of the calls
  whose allocations succeed: the \<^verbatim>\<open>Calloc\<close> of R raises an error when it cannot
  allocate, as for a negative \<open>N\<close>, and that exit is not modelled.
\<close>

definition ksampleEtest ::
  "'g externals \<Rightarrow> int \<Rightarrow> int \<Rightarrow> (int \<Rightarrow> int) \<Rightarrow> int \<Rightarrow> int \<Rightarrow> int \<Rightarrow> 'g driver \<Rightarrow> 'g driver"
where
  "ksampleEtest ext byrow nsamples sizes dimn R U s =
    (let B = R; K = nsamples; d = dimn;
         N = for_loop 0 K (\<lambda>k N. cint (N + sizes k)) 0;
         s = s\<lparr>perm_arr := for_loop 0 N (\<lambda>i perm. perm(i := i)) (\<lambda>i. 0)\<rparr>;
         s = s\<lparr>D_mat :=
                (if d > 0
                 then distance ext (vector2matrix ext (x_buf s) N d byrow) N d
                 else vector2matrix ext (x_buf s) N N byrow)\<rparr>;
         s = s\<lparr>e0_out := multisampleE (D_mat s) K sizes (perm_arr s) U\<rparr>
     in if B > 0
        then
          let s = s\<lparr>ek_cnt := 0\<rparr>;
              s = for_loop 0 B (replicate_body ext K sizes N U) s
          in s\<lparr>pval_out := double_of_int (cint (ek_cnt s + 1)) / double_of_int (cint (B + 1))\<rparr>
        else s)"

section \<open>Names for the phases of the permutation test\<close>

text \<open>The value of \<^verbatim>\<open>N\<close> after the first loop of \<^verbatim>\<open>ksampleEtest\<close>.\<close>

definition pooled_N :: "int \<Rightarrow> (int \<Rightarrow> int) \<Rightarrow> int" where
  "pooled_N K sizes = for_loop 0 K (\<lambda>k N. cint (N + sizes k)) 0"

text \<open>The array \<^verbatim>\<open>perm\<close> after the second loop: \<open>perm[i] = i\<close> on the \<open>N\<close> cells.\<close>

definition identity_upto :: "int \<Rightarrow> int \<Rightarrow> int" where
  "identity_upto N i = (if 0 \<le> i \<and> i < N then i else 0)"

text \<open>The matrix \<^verbatim>\<open>D\<close> after the setup, from the buffer \<open>x\<close>.\<close>

definition distance_matrix ::
  "'g externals \<Rightarrow> (int \<Rightarrow> double) \<Rightarrow> int \<Rightarrow> int \<Rightarrow> int \<Rightarrow> int \<Rightarrow> int \<Rightarrow> double" where
  "distance_matrix ext x N d byrow =
     (if d > 0 then distance ext (vector2matrix ext x N d byrow) N d
      else vector2matrix ext x N N byrow)"

text \<open>The array and the generator's state after \<open>k\<close> calls of \<^verbatim>\<open>permute\<close>.\<close>

primrec shuffled ::
  "'g externals \<Rightarrow> int \<Rightarrow> nat \<Rightarrow> (int \<Rightarrow> int) \<times> 'g \<Rightarrow> (int \<Rightarrow> int) \<times> 'g" where
  "shuffled ext N 0 pg = pg"
| "shuffled ext N (Suc k) pg = (case shuffled ext N k pg of (p, g) \<Rightarrow> permute ext g p N)"

text \<open>The statistic of replicate \<open>b\<close>: on the array shuffled \<open>b + 1\<close> times.\<close>

definition replicate_stat ::
  "'g externals \<Rightarrow> (int \<Rightarrow> int \<Rightarrow> double) \<Rightarrow> int \<Rightarrow> (int \<Rightarrow> int) \<Rightarrow> int \<Rightarrow> int
    \<Rightarrow> (int \<Rightarrow> int) \<times> 'g \<Rightarrow> int \<Rightarrow> double" where
  "replicate_stat ext D K sizes N U pg b =
     multisampleE D K sizes (fst (shuffled ext N (nat b + 1) pg)) U"

section \<open>Notions of the statements and of the specification\<close>

text \<open>An integer that a C \<^verbatim>\<open>int\<close> of 32 bits holds.\<close>

definition is_cint :: "int \<Rightarrow> bool" where
  "is_cint x \<longleftrightarrow> - 2147483648 \<le> x \<and> x < 2147483648"

text \<open>
  The group offsets of the specification: the prefix sums of the sizes, \<open>M[0] = 0\<close> and
  \<open>M[k] = M[k - 1] + sizes[k - 1]\<close>.
\<close>

definition group_offset :: "(int \<Rightarrow> int) \<Rightarrow> int \<Rightarrow> int" where
  "group_offset sizes k = (\<Sum>l = 0..<k. sizes l)"

text \<open>
  The invalid configurations of the specification: fewer than two groups, a group size
  below one, or a negative number of replicates.
\<close>

definition spec_invalid_config :: "int \<Rightarrow> (int \<Rightarrow> int) \<Rightarrow> int \<Rightarrow> bool" where
  "spec_invalid_config K sizes R \<longleftrightarrow> K < 2 \<or> (\<exists>k\<in>{0..<K}. sizes k < 1) \<or> R < 0"

text \<open>
  What the specification asks of an invalid configuration: it is rejected before any
  allocation or computation, so the call leaves the memory as it found it.
\<close>

definition spec_rejects ::
  "'g externals \<Rightarrow> int \<Rightarrow> int \<Rightarrow> (int \<Rightarrow> int) \<Rightarrow> int \<Rightarrow> int \<Rightarrow> int \<Rightarrow> 'g driver \<Rightarrow> bool" where
  "spec_rejects ext byrow K sizes d R U s \<longleftrightarrow>
     (spec_invalid_config K sizes R \<longrightarrow> ksampleEtest ext byrow K sizes d R U s = s)"

section \<open>Sample inputs\<close>

text \<open>The sample of the worked example: two groups of three points on the line.\<close>

definition line6 :: "int \<Rightarrow> real" where
  "line6 i = [0, 1, 2, 10, 11, 12] ! nat i"

text \<open>
  Six points on the line on which the two orders of the groups return different doubles,
  and a pooled sample of four points, a group of one and a group of three.
\<close>

definition swap6 :: "int \<Rightarrow> real" where
  "swap6 i = [0, 0, 1, 0, 1, 3] ! nat i"

definition pair4 :: "int \<Rightarrow> real" where
  "pair4 i = [0, 7, 0, 0] ! nat i"

text \<open>
  Stand-ins for the collaborators in the sample runs: a \<^verbatim>\<open>permute\<close> that rotates the
  array by one place, a \<^verbatim>\<open>vector2matrix\<close> that reads the buffer by rows or by columns,
  and a \<^verbatim>\<open>distance\<close> for samples of one column, where the Euclidean distance of two
  rows is the absolute difference of their entries.
\<close>

definition demo_ext :: "nat externals" where
  "demo_ext =
     \<lparr>permute = (\<lambda>g p n. (\<lambda>i. p ((i + 1) mod n), Suc g)),
      vector2matrix = (\<lambda>x N d byrow i j. x (if byrow = 0 then N * j + i else i * d + j)),
      distance = (\<lambda>data N d i j.
         if data i 0 < data j 0 then data j 0 - data i 0 else data i 0 - data j 0)\<rparr>"

text \<open>
  The memory before a sample run: the buffer holds the distance matrix of the six points
  by rows, and the result cells hold \<open>-1\<close>.
\<close>

definition demo_state :: "nat driver" where
  "demo_state =
     \<lparr>x_buf = (\<lambda>i. Fin \<bar>line6 (i div 6) - line6 (i mod 6)\<bar>),
      D_mat = (\<lambda>i j. Fin 0), perm_arr = (\<lambda>i. 0),
      e0_out = Fin (- 1), e_out = (\<lambda>b. Fin (- 1)), pval_out = Fin (- 1),
      ek_cnt = 0, rng_state = 0\<rparr>"

section \<open>Arithmetic of the model\<close>

lemma cint_id: "- 2147483648 \<le> x \<Longrightarrow> x < 2147483648 \<Longrightarrow> cint x = x"
  by (simp add: cint_def)

text \<open>Addition with the special values is still associative and commutative.\<close>

lemma plus_double_assoc: "(x + y) + z = x + (y + z)" for x y z :: double
  by (cases x; cases y; cases z; simp)

lemma plus_double_commute: "x + y = y + x" for x y :: double
  by (cases x; cases y; simp)

lemma plus_double_zero: "0 + x = x" for x :: double
  by (cases x; simp add: zero_double_def)

instance double :: comm_monoid_add
  by standard (fact plus_double_assoc plus_double_commute plus_double_zero)+

lemma for_loop_sum:
  fixes f :: "int \<Rightarrow> 'a::comm_monoid_add"
  shows "for_loop i n (\<lambda>j s. s + f j) s0 = s0 + sum f {i..<n}"
proof (induction i n "\<lambda>j s. s + f j" s0 rule: for_loop.induct)
  case (1 i n s)
  show ?case
  proof (cases "i < n")
    case True
    then have "{i..<n} = insert i {i + 1..<n}" by auto
    then have "sum f {i..<n} = f i + sum f {i + 1..<n}" by simp
    with True 1 show ?thesis
      by (subst for_loop.simps) (simp add: add.assoc)
  next
    case False
    then show ?thesis by (subst for_loop.simps) simp
  qed
qed

lemma sum_Fin: "(\<Sum>i\<in>A. Fin (f i)) = Fin (\<Sum>i\<in>A. f i)"
proof (cases "finite A")
  case True
  then show ?thesis by (induction A) (simp_all add: zero_double_def)
next
  case False
  then show ?thesis by (simp add: zero_double_def)
qed

lemma minus_Fin [simp]: "Fin a - Fin b = Fin (a - b)"
  by (simp add: minus_double_def)

lemma NaN_absorb [simp]:
  "x + NaN = NaN" "NaN + x = NaN" "x - NaN = NaN" "NaN - x = NaN"
  "x * NaN = NaN" "NaN * x = NaN" "x / NaN = NaN" "NaN / x = NaN"
  by (cases x; simp add: minus_double_def)+

lemma for_loop_sum2:
  fixes g :: "int \<Rightarrow> int \<Rightarrow> 'a::comm_monoid_add"
  shows "for_loop a m (\<lambda>i. for_loop (lo i) (hi i) (\<lambda>j s. s + g i j)) s0 =
    s0 + (\<Sum>i = a..<m. \<Sum>j = lo i..<hi i. g i j)"
proof -
  have "(\<lambda>i. for_loop (lo i) (hi i) (\<lambda>j s. s + g i j)) =
      (\<lambda>i s. s + (\<Sum>j = lo i..<hi i. g i j))"
    by (intro ext) (rule for_loop_sum)
  then show ?thesis by (simp add: for_loop_sum)
qed

section \<open>Rounding to binary64\<close>

text \<open>The search finds the binade of a number once its two bounds are known.\<close>

lemma binade_eq:
  assumes "e0 \<le> e" and "e \<le> e0 + int k"
    and "e0 < e \<Longrightarrow> 2 powi e \<le> a" and "e < e0 + int k \<Longrightarrow> a < 2 powi (e + 1)"
  shows "binade a e0 k = e"
  using assms
proof (induction k arbitrary: e0)
  case 0
  then show ?case by simp
next
  case (Suc k)
  show ?case
  proof (cases "a < 2 powi (e0 + 1)")
    case True
    have "e = e0"
    proof (rule ccontr)
      assume "e \<noteq> e0"
      with Suc.prems(1) have less: "e0 < e" by simp
      then have "(2::real) powi (e0 + 1) \<le> 2 powi e"
        by (intro power_int_increasing) auto
      also have "\<dots> \<le> a" using Suc.prems(3) less by simp
      finally show False using True by simp
    qed
    with True show ?thesis by simp
  next
    case False
    have ne: "e \<noteq> e0"
    proof
      assume "e = e0"
      then have "a < 2 powi (e + 1)" using Suc.prems(4) by simp
      with \<open>e = e0\<close> False show False by simp
    qed
    have "binade a (e0 + 1) k = e"
    proof (rule Suc.IH)
      show "e0 + 1 \<le> e" using ne Suc.prems(1) by simp
      show "e \<le> e0 + 1 + int k" using Suc.prems(2) by simp
      show "2 powi e \<le> a" if "e0 + 1 < e" using Suc.prems(3) that by simp
      show "a < 2 powi (e + 1)" if "e < e0 + 1 + int k" using Suc.prems(4) that by simp
    qed
    with False show ?thesis by simp
  qed
qed

lemma ieee_round_eval:
  assumes "2 powi e \<le> \<bar>x\<bar>" and "\<bar>x\<bar> < 2 powi (e + 1)" and "- 1022 \<le> e" and "e \<le> 1023"
  shows "ieee_round x =
    (let u = 2 powi (e - 52); y = u * of_int (round_even (x / u))
     in if 2 powi 1024 \<le> \<bar>y\<bar> then inf_of (0 < y) else Fin y)"
proof -
  have "binade \<bar>x\<bar> (- 1022) 2045 = e"
    using assms by (intro binade_eq) auto
  then show ?thesis by (simp add: ieee_round_def)
qed

lemma ieee_round_0: "ieee_round 0 = Fin 0"
proof -
  have "binade \<bar>0\<bar> (- 1022) 2045 = - 1022"
    by (intro binade_eq) auto
  then show ?thesis by (simp add: ieee_round_def round_even_def)
qed

text \<open>
  The roundings that occur in the two sample computations below, each from the binade of
  its argument: a quotient such as \<open>2 / 9\<close> is rounded, a double is left as it is.
\<close>

lemma rounding_1: "ieee_round 1 = Fin 1"
  by (subst ieee_round_eval [where e = "0"]) (simp_all add: round_even_def)

lemma rounding_2: "ieee_round 2 = Fin 2"
  by (subst ieee_round_eval [where e = "1"]) (simp_all add: round_even_def)

lemma rounding_3: "ieee_round (2 / 9) = Fin (2001599834386887 / 9007199254740992)"
  by (subst ieee_round_eval [where e = "- 3"]) (simp_all add: round_even_def)

lemma rounding_4: "ieee_round (2001599834386887 / 4503599627370496) = Fin (2001599834386887 / 4503599627370496)"
  by (subst ieee_round_eval [where e = "- 2"]) (simp_all add: round_even_def)

lemma rounding_5: "ieee_round 4 = Fin 4"
  by (subst ieee_round_eval [where e = "2"]) (simp_all add: round_even_def)

lemma rounding_6: "ieee_round 6 = Fin 6"
  by (subst ieee_round_eval [where e = "2"]) (simp_all add: round_even_def)

lemma rounding_7: "ieee_round (6004799503160661 / 4503599627370496) = Fin (6004799503160661 / 4503599627370496)"
  by (subst ieee_round_eval [where e = "0"]) (simp_all add: round_even_def)

lemma rounding_8: "ieee_round 5 = Fin 5"
  by (subst ieee_round_eval [where e = "2"]) (simp_all add: round_even_def)

lemma rounding_9: "ieee_round 8 = Fin 8"
  by (subst ieee_round_eval [where e = "3"]) (simp_all add: round_even_def)

lemma rounding_10: "ieee_round 9 = Fin 9"
  by (subst ieee_round_eval [where e = "3"]) (simp_all add: round_even_def)

lemma rounding_11: "ieee_round 11 = Fin 11"
  by (subst ieee_round_eval [where e = "3"]) (simp_all add: round_even_def)

lemma rounding_12: "ieee_round (11 / 9) = Fin (1376099886140985 / 1125899906842624)"
  by (subst ieee_round_eval [where e = "0"]) (simp_all add: round_even_def)

lemma rounding_13: "ieee_round (3 / 2) = Fin (3 / 2)"
  by (subst ieee_round_eval [where e = "0"]) (simp_all add: round_even_def)

lemma rounding_14: "ieee_round (1376099886140985 / 562949953421312) = Fin (1376099886140985 / 562949953421312)"
  by (subst ieee_round_eval [where e = "1"]) (simp_all add: round_even_def)

lemma rounding_15: "ieee_round (9007199254740993 / 4503599627370496) = Fin 2"
  by (subst ieee_round_eval [where e = "1"]) (simp_all add: round_even_def)

lemma rounding_16: "ieee_round (3002399751580331 / 4503599627370496) = Fin (3002399751580331 / 4503599627370496)"
  by (subst ieee_round_eval [where e = "- 1"]) (simp_all add: round_even_def)

lemma rounding_17: "ieee_round (9007199254740993 / 9007199254740992) = Fin 1"
  by (subst ieee_round_eval [where e = "0"]) (simp_all add: round_even_def)

lemma rounding_18: "ieee_round 3 = Fin 3"
  by (subst ieee_round_eval [where e = "1"]) (simp_all add: round_even_def)

lemma rounding_19: "ieee_round (5003999585967219 / 4503599627370496) = Fin (5003999585967219 / 4503599627370496)"
  by (subst ieee_round_eval [where e = "0"]) (simp_all add: round_even_def)

lemma rounding_20: "ieee_round (750599937895083 / 1125899906842624) = Fin (750599937895083 / 1125899906842624)"
  by (subst ieee_round_eval [where e = "- 1"]) (simp_all add: round_even_def)

lemma rounding_21: "ieee_round (2251799813685249 / 2251799813685248) = Fin (2251799813685249 / 2251799813685248)"
  by (subst ieee_round_eval [where e = "0"]) (simp_all add: round_even_def)

lemma rounding_22: "ieee_round (- 7) = Fin (- 7)"
  by (subst ieee_round_eval [where e = "2"]) (simp_all add: round_even_def)

lemma rounding_23: "ieee_round 49 = Fin 49"
  by (subst ieee_round_eval [where e = "5"]) (simp_all add: round_even_def)

lemma rounding_24: "ieee_round 7 = Fin 7"
  by (subst ieee_round_eval [where e = "2"]) (simp_all add: round_even_def)

lemma rounding_25: "ieee_round (7 / 3) = Fin (5254199565265579 / 2251799813685248)"
  by (subst ieee_round_eval [where e = "1"]) (simp_all add: round_even_def)

lemma rounding_26: "ieee_round 14 = Fin 14"
  by (subst ieee_round_eval [where e = "3"]) (simp_all add: round_even_def)

lemma rounding_27: "ieee_round (14 / 9) = Fin (7005599420354105 / 4503599627370496)"
  by (subst ieee_round_eval [where e = "0"]) (simp_all add: round_even_def)

lemma rounding_28: "ieee_round (3 / 4) = Fin (3 / 4)"
  by (subst ieee_round_eval [where e = "- 1"]) (simp_all add: round_even_def)

lemma rounding_29: "ieee_round (5254199565265579 / 2251799813685248) = Fin (5254199565265579 / 2251799813685248)"
  by (subst ieee_round_eval [where e = "1"]) (simp_all add: round_even_def)

lemma rounding_30: "ieee_round (3502799710177053 / 4503599627370496) = Fin (3502799710177053 / 4503599627370496)"
  by (subst ieee_round_eval [where e = "- 1"]) (simp_all add: round_even_def)

lemma rounding_31: "ieee_round (10508399130531159 / 9007199254740992) = Fin (1313549891316395 / 1125899906842624)"
  by (subst ieee_round_eval [where e = "0"]) (simp_all add: round_even_def)

lemma rounding_32: "ieee_round (14011198840708209 / 4503599627370496) = Fin (875699927544263 / 281474976710656)"
  by (subst ieee_round_eval [where e = "1"]) (simp_all add: round_even_def)

lemma rounding_33: "ieee_round (5254199565265579 / 1125899906842624) = Fin (5254199565265579 / 1125899906842624)"
  by (subst ieee_round_eval [where e = "2"]) (simp_all add: round_even_def)

lemma rounding_34: "ieee_round (1751399855088527 / 1125899906842624) = Fin (1751399855088527 / 1125899906842624)"
  by (subst ieee_round_eval [where e = "0"]) (simp_all add: round_even_def)

lemma rounding_35: "ieee_round (5254199565265581 / 4503599627370496) = Fin (5254199565265581 / 4503599627370496)"
  by (subst ieee_round_eval [where e = "0"]) (simp_all add: round_even_def)

lemmas roundings =
  rounding_1 rounding_2 rounding_3 rounding_4 rounding_5 rounding_6 rounding_7 rounding_8
  rounding_9 rounding_10 rounding_11 rounding_12 rounding_13 rounding_14 rounding_15
  rounding_16 rounding_17 rounding_18 rounding_19 rounding_20 rounding_21 rounding_22
  rounding_23 rounding_24 rounding_25 rounding_26 rounding_27 rounding_28 rounding_29
  rounding_30 rounding_31 rounding_32 rounding_33 rounding_34 rounding_35

lemma sqrt_49: "sqrt 49 = 7"
proof -
  have "sqrt (7\<^sup>2) = 7" by (simp only: real_sqrt_abs)
  then show ?thesis by simp
qed

text \<open>
  The two orders of the groups on the six points \<open>0, 0, 1\<close> and \<open>0, 1, 3\<close>, operation by
  operation: the means \<open>2 / 9\<close> and \<open>8 / 9\<close> of the two groups are subtracted in the other
  order, and the two results differ by one unit in the last place.
\<close>

lemma swap6_xy:
  "twosampleE_ieee (\<lambda>i j. Fin \<bar>swap6 i - swap6 j\<bar>) 3 3 (\<lambda>i. i) (\<lambda>j. 3 + j) 0 = Fin 1"
  by (simp add: twosampleE_ieee_def Let_def for_loop.simps cint_def double_of_int_def swap6_def
      fadd_def fsub_def fmul_def fdiv_def ieee_round_0 roundings)

lemma swap6_yx:
  "twosampleE_ieee (\<lambda>i j. Fin \<bar>swap6 i - swap6 j\<bar>) 3 3 (\<lambda>j. 3 + j) (\<lambda>i. i) 0
     = Fin (2251799813685249 / 2251799813685248)"
  by (simp add: twosampleE_ieee_def Let_def for_loop.simps cint_def double_of_int_def swap6_def
      fadd_def fsub_def fmul_def fdiv_def ieee_round_0 roundings)

section \<open>The two-sample statistic as sums\<close>

text \<open>The three double loops of \<open>twosampleE\<close> are sums over index pairs.\<close>

lemma twosampleE_sums:
  "twosampleE D m n xrows yrows unbiased =
    (if m < 1 \<or> n < 1 then Fin 0
     else
       let sumxx = (\<Sum>i = 0..<m. \<Sum>j = i + 1..<m. D (xrows i) (xrows j))
                     * (Fin 2 / double_of_int (cint (m * m)));
           sumyy = (\<Sum>i = 0..<n. \<Sum>j = i + 1..<n. D (yrows i) (yrows j))
                     * (Fin 2 / double_of_int (cint (n * n)));
           sumxx = (if unbiased = 1
                    then sumxx * (double_of_int m / double_of_int (m - 1)) else sumxx);
           sumyy = (if unbiased = 1
                    then sumyy * (double_of_int n / double_of_int (n - 1)) else sumyy);
           sumxy = (\<Sum>i = 0..<m. \<Sum>j = 0..<n. D (xrows i) (yrows j))
                     / double_of_int (cint (m * n))
       in double_of_int (cint (m * n)) / double_of_int (cint (m + n))
            * (Fin 2 * sumxy - sumxx - sumyy))"
  by (simp add: twosampleE_def for_loop_sum2 zero_double_def [symmetric])

text \<open>Sizes up to 46340 keep \<^verbatim>\<open>m*m\<close>, \<^verbatim>\<open>m*n\<close> and \<^verbatim>\<open>m+n\<close> inside an \<^verbatim>\<open>int\<close>.\<close>

lemma sizes_in_range:
  assumes "1 \<le> m" "m \<le> 46340" "1 \<le> n" "n \<le> 46340"
  shows "cint (m * n) = m * n" "cint (m + n) = m + n"
proof -
  have "m * n \<le> 46340 * 46340" using assms by (intro mult_mono) auto
  moreover have "0 < m * n" using assms by simp
  ultimately show "cint (m * n) = m * n" by (intro cint_id) auto
  show "cint (m + n) = m + n" using assms by (intro cint_id) auto
qed

lemma twosampleE_singleton:
  assumes "1 \<le> m" and "1 \<le> n" and "m = 1 \<or> n = 1"
  shows "twosampleE D m n xrows yrows 1 = NaN"
proof -
  have x: "m = 1 \<Longrightarrow> (\<Sum>i = 0..<m. \<Sum>j = i + 1..<m. D (xrows i) (xrows j)) = 0"
    by (intro sum.neutral ballI) simp
  have y: "n = 1 \<Longrightarrow> (\<Sum>i = 0..<n. \<Sum>j = i + 1..<n. D (yrows i) (yrows j)) = 0"
    by (intro sum.neutral ballI) simp
  have z: "0 * (Fin 2 / double_of_int (cint 1)) * (double_of_int 1 / double_of_int 0) = NaN"
    by (simp add: zero_double_def double_of_int_def cint_def)
  from assms(3) show ?thesis
  proof
    assume "m = 1"
    with assms x z show ?thesis by (simp add: twosampleE_sums Let_def)
  next
    assume "n = 1"
    with assms y z show ?thesis by (simp add: twosampleE_sums Let_def)
  qed
qed

lemma ivl3: "{0..<3::int} = {0, 1, 2}" "{1..<3::int} = {1, 2}" "{2..<3::int} = {2}"
  by auto



text \<open>
  Claim C7. With the bias correction requested (\<open>unbiased = 1\<close>) and a group of one
  (\<open>m = 1\<close> or \<open>n = 1\<close>), \<open>twosampleE\<close> divides by \<open>m - 1\<close> or \<open>n - 1\<close> unguarded: the
  factor \<open>1 / 0\<close> is an infinity, its product with the empty within-sum \<open>0\<close> is NaN, and
  the NaN is what the function returns, for every matrix.
\<close>

theorem twosampleE_singleton_unbiased_NaN:
  "1 \<le> m \<Longrightarrow> 1 \<le> n \<Longrightarrow> m = 1 \<or> n = 1 \<Longrightarrow> twosampleE D m n xrows yrows 1 = NaN"
  by (rule twosampleE_singleton)

theorem twosampleE_singleton_unbiased_NaN_witness:
  "twosampleE (\<lambda>i j. Fin \<bar>line6 i - line6 j\<bar>) 1 3 (\<lambda>i. i) (\<lambda>j. 1 + j) 1 = NaN"
  using twosampleE_singleton_unbiased_NaN
    [of 1 3 "\<lambda>i j. Fin \<bar>line6 i - line6 j\<bar>" "\<lambda>i. i" "\<lambda>j. 1 + j"]
  by simp

section \<open>Loop invariants\<close>

lemma for_loop_invariant:
  assumes "P i s"
    and "\<And>k t. i \<le> k \<Longrightarrow> k < n \<Longrightarrow> P k t \<Longrightarrow> P (k + 1) (body k t)"
    and "i \<le> n"
  shows "P n (for_loop i n body s)"
  using assms
proof (induction i n body s rule: for_loop.induct)
  case (1 i n body s)
  show ?case
  proof (cases "i < n")
    case True
    have "P n (for_loop (i + 1) n body (body i s))"
    proof (rule 1(1) [OF True])
      show "P (i + 1) (body i s)" using 1(2,3) True by simp
      show "\<And>k t. i + 1 \<le> k \<Longrightarrow> k < n \<Longrightarrow> P k t \<Longrightarrow> P (k + 1) (body k t)"
        using 1(3) by simp
      show "i + 1 \<le> n" using True by simp
    qed
    with True show ?thesis by (subst for_loop.simps) simp
  next
    case False
    with 1(2,4) show ?thesis by (subst for_loop.simps) simp
  qed
qed

lemma for_loop_empty: "n \<le> i \<Longrightarrow> for_loop i n body s = s"
  by (subst for_loop.simps) simp

section \<open>The multi-sample statistic as a sum over the pairs of groups\<close>

lemma group_offset_step:
  "0 \<le> k \<Longrightarrow> group_offset sizes (k + 1) = group_offset sizes k + sizes k"
proof -
  assume "0 \<le> k"
  then have "{0..<k + 1} = insert k {0..<k}" by auto
  then show ?thesis by (simp add: group_offset_def)
qed

text \<open>The loop that fills \<^verbatim>\<open>M\<close> computes the prefix sums, as long as they fit an \<^verbatim>\<open>int\<close>.\<close>

lemma offsets_loop:
  assumes "\<forall>k\<in>{0..<K}. is_cint (group_offset sizes k)" and "0 \<le> j" and "j < K"
  shows "for_loop 1 K (\<lambda>k M. M(k := cint (M (k - 1) + sizes (k - 1)))) ((\<lambda>k. 0)(0 := 0)) j
    = group_offset sizes j"
proof -
  let ?body = "\<lambda>k M. M(k := cint (M (k - 1) + sizes (k - 1)))"
  let ?P = "\<lambda>k (M :: int \<Rightarrow> int). \<forall>j. 0 \<le> j \<and> j < k \<longrightarrow> M j = group_offset sizes j"
  have "?P K (for_loop 1 K ?body ((\<lambda>k. 0)(0 := 0)))"
  proof (rule for_loop_invariant [where P = ?P])
    show "?P 1 ((\<lambda>k. 0)(0 := 0))" by (auto simp: group_offset_def)
    show "1 \<le> K" using assms by simp
  next
    fix k :: int and t :: "int \<Rightarrow> int"
    assume k: "1 \<le> k" "k < K" and t: "?P k t"
    have "t (k - 1) = group_offset sizes (k - 1)" using t k by simp
    moreover have "group_offset sizes (k - 1) + sizes (k - 1) = group_offset sizes k"
      using group_offset_step [of "k - 1" sizes] k by simp
    moreover have "is_cint (group_offset sizes k)" using assms(1) k by simp
    ultimately have "cint (t (k - 1) + sizes (k - 1)) = group_offset sizes k"
      by (simp add: is_cint_def cint_id)
    with t show "?P (k + 1) (?body k t)" by auto
  qed
  with assms show ?thesis by simp
qed

lemma multisampleE_sums:
  assumes "\<forall>k\<in>{0..<K}. is_cint (group_offset sizes k)"
  shows "multisampleE D K sizes perm u =
    (\<Sum>i = 0..<K. \<Sum>j = i + 1..<K.
       twosampleE D (sizes i) (sizes j)
         (\<lambda>t. perm (group_offset sizes i + t)) (\<lambda>t. perm (group_offset sizes j + t)) u)"
proof -
  define M where
    "M = for_loop 1 K (\<lambda>k M. M(k := cint (M (k - 1) + sizes (k - 1)))) ((\<lambda>k. 0)(0 := 0))"
  have M: "M j = group_offset sizes j" if "0 \<le> j" "j < K" for j
    unfolding M_def using assms that by (rule offsets_loop)
  have "multisampleE D K sizes perm u =
    (\<Sum>i = 0..<K. \<Sum>j = i + 1..<K.
       twosampleE D (sizes i) (sizes j) (\<lambda>t. perm (M i + t)) (\<lambda>t. perm (M j + t)) u)"
    by (simp add: multisampleE_def M_def [symmetric] Let_def for_loop_sum2
        zero_double_def [symmetric])
  also have "\<dots> = (\<Sum>i = 0..<K. \<Sum>j = i + 1..<K.
       twosampleE D (sizes i) (sizes j)
         (\<lambda>t. perm (group_offset sizes i + t)) (\<lambda>t. perm (group_offset sizes j + t)) u)"
    by (intro sum.cong refl) (simp add: M)
  finally show ?thesis .
qed

lemma ivl2: "{0..<2::int} = {0, 1}" "{1..<2::int} = {1}" "{0..<1::int} = {0}"
  by auto

lemma offset_0: "(+) (0::int) = (\<lambda>t. t)"
  by auto

text \<open>
  Claim C2. For \<open>K \<ge> 2\<close> groups, any sizes, permutation array and bias flag,
  \<open>multisampleE\<close> is the sum of \<open>twosampleE\<close> over the pairs of groups \<open>i < j < K\<close>,
  where the index array of group \<open>k\<close> is the slice of the permutation array that starts
  at the offset \<open>M[k]\<close>, the prefix sum of the sizes, and has \<open>sizes[k]\<close> entries. The
  prefix sums are such that the additions of the source do not overflow an \<^verbatim>\<open>int\<close>.
\<close>

theorem multisampleE_pairs:
  assumes "2 \<le> K" and "\<forall>k\<in>{0..<K}. is_cint (group_offset sizes k)"
  shows "multisampleE D K sizes perm u =
    (\<Sum>i = 0..<K. \<Sum>j = i + 1..<K.
       twosampleE D (sizes i) (sizes j)
         (\<lambda>t. perm (group_offset sizes i + t)) (\<lambda>t. perm (group_offset sizes j + t)) u)"
  using assms(2) by (rule multisampleE_sums)

text \<open>Three groups of two points: the three pairs of groups, each on its two slices.\<close>

theorem multisampleE_pairs_witness:
  "multisampleE (\<lambda>i j. Fin \<bar>line6 i - line6 j\<bar>) 3 (\<lambda>k. 2) (\<lambda>i. i) 0 =
     twosampleE (\<lambda>i j. Fin \<bar>line6 i - line6 j\<bar>) 2 2 (\<lambda>t. 0 + t) (\<lambda>t. 2 + t) 0
     + twosampleE (\<lambda>i j. Fin \<bar>line6 i - line6 j\<bar>) 2 2 (\<lambda>t. 0 + t) (\<lambda>t. 4 + t) 0
     + twosampleE (\<lambda>i j. Fin \<bar>line6 i - line6 j\<bar>) 2 2 (\<lambda>t. 2 + t) (\<lambda>t. 4 + t) 0"
  using multisampleE_pairs
    [of 3 "\<lambda>k. 2" "\<lambda>i j. Fin \<bar>line6 i - line6 j\<bar>" "\<lambda>i. i" 0]
  by (simp add: ivl3 ivl2 group_offset_def is_cint_def offset_0)

text \<open>
  Claim C5. With \<open>K = 2\<close>, \<open>multisampleE\<close> returns exactly what \<open>twosampleE\<close> returns on
  the two slices of the permutation array, at the offsets \<open>0\<close> and \<open>m = sizes[0]\<close>.
\<close>

theorem multisampleE_two_groups:
  assumes "is_cint (sizes 0)"
  shows "multisampleE D 2 sizes perm u =
    twosampleE D (sizes 0) (sizes 1) (\<lambda>t. perm (0 + t)) (\<lambda>t. perm (sizes 0 + t)) u"
proof -
  have "\<forall>k\<in>{0..<2}. is_cint (group_offset sizes k)"
    using assms by (simp add: ivl2 group_offset_def is_cint_def)
  then show ?thesis
    by (simp add: multisampleE_sums ivl2 group_offset_def)
qed

theorem multisampleE_two_groups_witness:
  "multisampleE (\<lambda>i j. Fin \<bar>line6 i - line6 j\<bar>) 2 (\<lambda>k. 3) (\<lambda>i. 5 - i) 1 =
     twosampleE (\<lambda>i j. Fin \<bar>line6 i - line6 j\<bar>) 3 3 (\<lambda>t. 5 - t) (\<lambda>t. 2 - t) 1"
  using multisampleE_two_groups
    [of "\<lambda>k. 3" "\<lambda>i j. Fin \<bar>line6 i - line6 j\<bar>" "\<lambda>i. 5 - i" 1]
  by (simp add: is_cint_def)

text \<open>
  Claim C6, as the specification states it: for a symmetric matrix, swapping the two
  groups leaves the value that \<open>twosampleE\<close> returns unchanged. In the arithmetic of
  \<^verbatim>\<open>double\<close> it does not: on the symmetric matrix of the distances of the six points
  \<open>0, 0, 1, 0, 1, 3\<close>, with the groups \<open>{0, 1, 2}\<close> and \<open>{3, 4, 5}\<close> and the flag \<open>0\<close>, the
  call returns \<open>1\<close> and the call with the groups swapped returns \<open>1 + 2\<^sup>-\<^sup>5\<^sup>1\<close>.
\<close>

theorem twosampleE_symmetric_counterexample:
  "(\<forall>i j. Fin \<bar>swap6 i - swap6 j\<bar> = Fin \<bar>swap6 j - swap6 i\<bar>)
   \<and> twosampleE_ieee (\<lambda>i j. Fin \<bar>swap6 i - swap6 j\<bar>) 3 3 (\<lambda>i. i) (\<lambda>j. 3 + j) 0 = Fin 1
   \<and> twosampleE_ieee (\<lambda>i j. Fin \<bar>swap6 i - swap6 j\<bar>) 3 3 (\<lambda>j. 3 + j) (\<lambda>i. i) 0
       = Fin (2251799813685249 / 2251799813685248)
   \<and> Fin 1 \<noteq> Fin (2251799813685249 / 2251799813685248)"
  by (simp add: swap6_xy swap6_yx abs_minus_commute)

text \<open>
  Claim C6, amended. For a symmetric matrix \<open>D\<close>, any two index arrays and any bias
  flag, the statistic of the two groups and the statistic of the groups swapped,
  \<open>twosampleE(D, m, n, X, Y, u)\<close> and \<open>twosampleE(D, n, m, Y, X, u)\<close>, are the same number
  when every operation is exact: the two calls add the same terms in a different order.
  (The doubles that the two calls return can differ by rounding, as above.)
\<close>

theorem twosampleE_symmetric:
  assumes "\<forall>i j. D i j = D j i"
  shows "twosampleE D m n X Y u = twosampleE D n m Y X u"
proof -
  have "(\<Sum>i = 0..<m. \<Sum>j = 0..<n. D (X i) (Y j)) = (\<Sum>j = 0..<n. \<Sum>i = 0..<m. D (X i) (Y j))"
    by (rule sum.swap)
  also have "\<dots> = (\<Sum>j = 0..<n. \<Sum>i = 0..<m. D (Y j) (X i))"
    using assms by simp
  finally have xy:
    "(\<Sum>i = 0..<m. \<Sum>j = 0..<n. D (X i) (Y j)) = (\<Sum>j = 0..<n. \<Sum>i = 0..<m. D (Y j) (X i))" .
  have sw: "a - b - c = a - c - b" for a b c :: double
    by (simp add: minus_double_def ac_simps)
  show ?thesis
    by (simp add: twosampleE_sums Let_def xy mult.commute [of m n] add.commute [of m n] sw
        disj_commute)
qed

theorem twosampleE_symmetric_witness:
  "twosampleE (\<lambda>i j. Fin \<bar>line6 i - line6 j\<bar>) 2 4 (\<lambda>i. i) (\<lambda>j. 2 + j) 1 =
     twosampleE (\<lambda>i j. Fin \<bar>line6 i - line6 j\<bar>) 4 2 (\<lambda>j. 2 + j) (\<lambda>i. i) 1"
  using twosampleE_symmetric [of "\<lambda>i j. Fin \<bar>line6 i - line6 j\<bar>" 2 4 "\<lambda>i. i" "\<lambda>j. 2 + j" 1]
  by (simp add: abs_minus_commute)

section \<open>The statistic from the data and the statistic from the distance matrix\<close>

lemma sum_shift_int:
  fixes f :: "int \<Rightarrow> 'a::comm_monoid_add"
  shows "(\<Sum>j = a + lo..<a + hi. f j) = (\<Sum>j = lo..<hi. f (a + j))"
  by (rule sum.reindex_bij_witness [of _ "\<lambda>j. a + j" "\<lambda>j. j - a"]) auto

lemma sum_shift0:
  fixes f :: "int \<Rightarrow> 'a::comm_monoid_add"
  shows "(\<Sum>j = a..<a + n. f j) = (\<Sum>j = 0..<n. f (a + j))"
  using sum_shift_int [of f a 0 n] by simp

lemma sum_triangle_swap:
  fixes g :: "int \<Rightarrow> int \<Rightarrow> 'a::comm_monoid_add"
  shows "(\<Sum>i = a + 1..<b. \<Sum>j = a..<i. g i j) = (\<Sum>j = a..<b. \<Sum>i = j + 1..<b. g i j)"
proof -
  have "(\<Sum>i = a + 1..<b. \<Sum>j = a..<i. g i j) = (\<Sum>i = a..<b. \<Sum>j = a..<i. g i j)"
    by (rule sum.mono_neutral_left) auto
  also have "\<dots> = (\<Sum>i = a..<b. \<Sum>j | j \<in> {a..<b} \<and> j < i. g i j)"
    by (intro sum.cong refl) auto
  also have "\<dots> = (\<Sum>j = a..<b. \<Sum>i | i \<in> {a..<b} \<and> j < i. g i j)"
    by (rule sum.swap_restrict) auto
  also have "\<dots> = (\<Sum>j = a..<b. \<Sum>i = j + 1..<b. g i j)"
    by (intro sum.cong refl) auto
  finally show ?thesis .
qed

lemma sqdist_sum:
  "sqdist x d p q = (\<Sum>k = 0..<d. (x (p + k) - x (q + k)) * (x (p + k) - x (q + k)))"
  by (simp add: sqdist_def Let_def for_loop_sum zero_double_def [symmetric])

lemma square_diff_commute: "(a - b) * (a - b) = (b - a) * (b - a)" for a b :: double
  by (cases a; cases b; simp add: minus_double_def algebra_simps)

lemma row_distance_commute: "row_distance x d i j = row_distance x d j i"
  by (simp add: row_distance_def sqdist_sum square_diff_commute)

lemma twice_times: "Fin 2 * w * t = w * (Fin 2 * t)"
  by (cases w; cases t; simp add: zero_less_mult_iff mult_less_0_iff)

lemma twice_minus: "Fin 2 * (p - q) = Fin 2 * p - Fin 2 * q"
  by (cases p; cases q; simp add: minus_double_def)

lemma twice_inf_of: "Fin 2 * inf_of c = inf_of c"
  by (cases c) simp_all

lemma twice_divide: "Fin 2 * (s / double_of_int b) = s * (Fin 2 / double_of_int b)"
proof (cases "b = 0")
  case True
  then show ?thesis by (cases s; simp add: double_of_int_def twice_inf_of)
next
  case False
  then have "(0 \<le> b) = (0 < b)" by auto
  with False show ?thesis by (cases s; simp add: double_of_int_def twice_inf_of)
qed

lemma E2sample_sums:
  "E2sample x sizes d =
    (let m = sizes 0; n = sizes 1;
         sumxy = (\<Sum>i = 0..<m. \<Sum>j = m..<cint (m + n). row_distance x d i j)
                   / double_of_int (cint (m * n));
         sumxx = (\<Sum>i = 1..<m. \<Sum>j = 0..<i. row_distance x d i j)
                   / double_of_int (cint (m * m));
         sumyy = (\<Sum>i = cint (m + 1)..<cint (m + n). \<Sum>j = m..<i. row_distance x d i j)
                   / double_of_int (cint (n * n));
         w = double_of_int (cint (m * n)) / double_of_int (cint (m + n))
     in Fin 2 * w * (sumxy - sumxx - sumyy))"
  by (simp add: E2sample_def Let_def for_loop_sum2 zero_double_def [symmetric]
      row_distance_def)

text \<open>\<open>E2sample\<close> against \<open>twosampleE\<close> on the distances \<open>E2sample\<close> itself computes.\<close>

lemma E2sample_row_distance:
  assumes "1 \<le> sizes 0" and "1 \<le> sizes 1" and "is_cint (sizes 0 + sizes 1)"
  shows "E2sample x sizes d =
    twosampleE (row_distance x d) (sizes 0) (sizes 1) (\<lambda>i. i) (\<lambda>j. sizes 0 + j) 0"
proof -
  define m n where "m = sizes 0" and "n = sizes 1"
  define E where "E = row_distance x d"
  have mn: "1 \<le> m" "1 \<le> n" "cint (m + n) = m + n" "cint (m + 1) = m + 1"
    using assms by (simp_all add: m_def n_def is_cint_def cint_id)
  have xy: "(\<Sum>i = 0..<m. \<Sum>j = m..<m + n. E i j) = (\<Sum>i = 0..<m. \<Sum>j = 0..<n. E i (m + j))"
    by (simp add: sum_shift0)
  have "(\<Sum>i = 1..<m. \<Sum>j = 0..<i. E i j) = (\<Sum>j = 0..<m. \<Sum>i = j + 1..<m. E i j)"
    using sum_triangle_swap [where a = 0 and b = m and g = E] by simp
  also have "\<dots> = (\<Sum>j = 0..<m. \<Sum>i = j + 1..<m. E j i)"
    by (simp add: E_def row_distance_commute [of x d])
  finally have xx: "(\<Sum>i = 1..<m. \<Sum>j = 0..<i. E i j) = (\<Sum>j = 0..<m. \<Sum>i = j + 1..<m. E j i)" .
  have "(\<Sum>i = m + 1..<m + n. \<Sum>j = m..<i. E i j) = (\<Sum>j = m..<m + n. \<Sum>i = j + 1..<m + n. E i j)"
    by (rule sum_triangle_swap)
  also have "\<dots> = (\<Sum>j = m..<m + n. \<Sum>i = j + 1..<m + n. E j i)"
    by (simp add: E_def row_distance_commute [of x d])
  also have "\<dots> = (\<Sum>j = 0..<n. \<Sum>i = m + j + 1..<m + n. E (m + j) i)"
    by (simp add: sum_shift0)
  also have "\<dots> = (\<Sum>j = 0..<n. \<Sum>i = j + 1..<n. E (m + j) (m + i))"
  proof (rule sum.cong [OF refl])
    fix j
    show "(\<Sum>i = m + j + 1..<m + n. E (m + j) i) = (\<Sum>i = j + 1..<n. E (m + j) (m + i))"
      using sum_shift_int [where a = m and lo = "j + 1" and hi = n and f = "E (m + j)"]
      by (simp add: add.assoc)
  qed
  finally have yy: "(\<Sum>i = m + 1..<m + n. \<Sum>j = m..<i. E i j)
      = (\<Sum>j = 0..<n. \<Sum>i = j + 1..<n. E (m + j) (m + i))" .
  have alg: "Fin 2 * w * (p / double_of_int a - q / double_of_int b - r / double_of_int c)
    = w * (Fin 2 * (p / double_of_int a) - q * (Fin 2 / double_of_int b) - r * (Fin 2 / double_of_int c))"
    for w p q r a b c
    by (simp add: twice_times twice_minus twice_divide)
  show ?thesis
    using mn
    by (simp add: E2sample_sums twosampleE_sums Let_def m_def [symmetric] n_def [symmetric]
        E_def [symmetric] xy xx yy alg)
qed

text \<open>
  On rows inside the buffer the distance that \<open>E2sample\<close> computes is the Euclidean
  distance of the specification, and \<open>twosampleE\<close> on the identity ranges reads the matrix
  at the rows of the pooled sample only.
\<close>

lemma row_distance_Euclidean:
  assumes "d \<le> 0 \<or> (cint (i * d) = i * d \<and> cint (j * d) = j * d)"
  shows "row_distance (\<lambda>k. Fin (x k)) d i j = Fin (Euclidean_distance x d i j)"
proof (cases "d \<le> 0")
  case True
  then have "{0..<d} = {}" by simp
  then show ?thesis
    by (simp add: row_distance_def Euclidean_distance_def sqdist_sum zero_double_def)
next
  case False
  with assms have ij: "cint (i * d) = i * d" "cint (j * d) = j * d" by simp_all
  have "sqdist (\<lambda>k. Fin (x k)) d (i * d) (j * d)
      = Fin (\<Sum>k = 0..<d. (x (i * d + k) - x (j * d + k))\<^sup>2)"
    by (simp add: sqdist_sum minus_double_def sum_Fin power2_eq_square)
  moreover have "0 \<le> (\<Sum>k = 0..<d. (x (i * d + k) - x (j * d + k))\<^sup>2)"
    by (rule sum_nonneg) simp
  ultimately show ?thesis
    by (simp add: row_distance_def Euclidean_distance_def ij)
qed

lemma twosampleE_cong:
  assumes "\<And>i j. 0 \<le> i \<Longrightarrow> i < m + n \<Longrightarrow> 0 \<le> j \<Longrightarrow> j < m + n \<Longrightarrow> D i j = D' i j"
  shows "twosampleE D m n (\<lambda>i. i) (\<lambda>j. m + j) u = twosampleE D' m n (\<lambda>i. i) (\<lambda>j. m + j) u"
proof (cases "m < 1 \<or> n < 1")
  case True
  then show ?thesis by (simp add: twosampleE_sums)
next
  case False
  then have mn: "1 \<le> m" "1 \<le> n" by simp_all
  have xx: "(\<Sum>i = 0..<m. \<Sum>j = i + 1..<m. D i j) = (\<Sum>i = 0..<m. \<Sum>j = i + 1..<m. D' i j)"
    using mn by (intro sum.cong refl assms) auto
  have yy: "(\<Sum>i = 0..<n. \<Sum>j = i + 1..<n. D (m + i) (m + j))
      = (\<Sum>i = 0..<n. \<Sum>j = i + 1..<n. D' (m + i) (m + j))"
    using mn by (intro sum.cong refl assms) auto
  have xy: "(\<Sum>i = 0..<m. \<Sum>j = 0..<n. D i (m + j)) = (\<Sum>i = 0..<m. \<Sum>j = 0..<n. D' i (m + j))"
    using mn by (intro sum.cong refl assms) auto
  show ?thesis by (simp add: twosampleE_sums xx yy xy)
qed

text \<open>
  The four points \<open>0\<close> and \<open>7, 0, 0\<close> on the line, operation by operation: \<open>E2sample\<close>
  multiplies \<open>2 * (3 / 4)\<close> by the difference of the means, \<open>twosampleE\<close> multiplies
  \<open>3 / 4\<close> by the difference with the cross mean doubled.
\<close>

lemma pair4_fly:
  "E2sample_ieee (\<lambda>i. Fin (pair4 i)) (\<lambda>k. if k = 0 then 1 else 3) 1
     = Fin (1313549891316395 / 1125899906842624)"
  by (simp add: E2sample_ieee_def sqdist_ieee_def Let_def for_loop.simps cint_def double_of_int_def
      pair4_def fadd_def fsub_def fmul_def fdiv_def fsqrt_def ieee_round_0 roundings sqrt_49)

lemma pair4_matrix: "Euclidean_distance pair4 1 i j = \<bar>pair4 i - pair4 j\<bar>"
  by (simp add: Euclidean_distance_def ivl2)

lemma pair4_two:
  "twosampleE_ieee (\<lambda>i j. Fin (Euclidean_distance pair4 1 i j)) 1 3 (\<lambda>i. i) (\<lambda>j. 1 + j) 0
     = Fin (5254199565265581 / 4503599627370496)"
  by (simp add: pair4_matrix twosampleE_ieee_def Let_def for_loop.simps cint_def double_of_int_def
      pair4_def fadd_def fsub_def fmul_def fdiv_def ieee_round_0 roundings)

text \<open>
  Claim C10, as the specification states it: \<open>E2sample\<close> returns the same value as
  \<open>twosampleE\<close> with flag \<open>0\<close> on the matrix of the pairwise Euclidean distances and the
  identity ranges. In the arithmetic of \<^verbatim>\<open>double\<close> it does not: for the pooled sample
  \<open>0, 7, 0, 0\<close> of dimension \<open>1\<close> with sizes \<open>1\<close> and \<open>3\<close> (the distances \<open>0\<close> and \<open>7\<close> are
  doubles) \<open>E2sample\<close> returns \<open>1313549891316395 / 2\<^sup>5\<^sup>0\<close> and \<open>twosampleE\<close> returns
  \<open>5254199565265581 / 2\<^sup>5\<^sup>2\<close>, one unit in the last place more.
\<close>

theorem E2sample_refines_twosampleE_counterexample:
  "E2sample_ieee (\<lambda>i. Fin (pair4 i)) (\<lambda>k. if k = 0 then 1 else 3) 1
     = Fin (1313549891316395 / 1125899906842624)
   \<and> twosampleE_ieee (\<lambda>i j. Fin (Euclidean_distance pair4 1 i j)) 1 3 (\<lambda>i. i) (\<lambda>j. 1 + j) 0
       = Fin (5254199565265581 / 4503599627370496)
   \<and> Fin (1313549891316395 / 1125899906842624) \<noteq> Fin (5254199565265581 / 4503599627370496)"
  by (simp add: pair4_fly pair4_two)

text \<open>
  Claim C10, amended. For a pooled sample in row order with sizes \<open>m, n \<ge> 1\<close> and
  dimension \<open>d\<close>, where \<open>m + n\<close> and \<open>(m + n) d\<close> fit an \<^verbatim>\<open>int\<close>, the statistic of
  \<open>E2sample\<close> and the statistic of \<open>twosampleE\<close> with flag \<open>0\<close> on the matrix of the
  pairwise Euclidean distances and the identity ranges \<open>{0..m-1}\<close> and \<open>{m..m+n-1}\<close> are
  the same number when every operation is exact. (The doubles that the two functions
  return can differ by rounding, as above.)
\<close>

theorem E2sample_refines_twosampleE:
  assumes "1 \<le> sizes 0" and "1 \<le> sizes 1" and "is_cint (sizes 0 + sizes 1)"
    and "(sizes 0 + sizes 1) * d < 2147483648"
  shows "E2sample (\<lambda>k. Fin (x k)) sizes d =
    twosampleE (\<lambda>i j. Fin (Euclidean_distance x d i j)) (sizes 0) (sizes 1)
      (\<lambda>i. i) (\<lambda>j. sizes 0 + j) 0"
proof -
  let ?N = "sizes 0 + sizes 1"
  have in_range: "d \<le> 0 \<or> cint (i * d) = i * d" if "0 \<le> i" "i < ?N" for i
  proof (cases "d \<le> 0")
    case True
    then show ?thesis by simp
  next
    case False
    then have d: "0 < d" by simp
    with that have "0 \<le> i * d" by simp
    moreover have "i * d \<le> ?N * d" using that d by (intro mult_right_mono) auto
    ultimately have "cint (i * d) = i * d" using assms(4) by (intro cint_id) auto
    then show ?thesis by simp
  qed
  have "E2sample (\<lambda>k. Fin (x k)) sizes d =
      twosampleE (row_distance (\<lambda>k. Fin (x k)) d) (sizes 0) (sizes 1)
        (\<lambda>i. i) (\<lambda>j. sizes 0 + j) 0"
    using assms(1-3) by (rule E2sample_row_distance)
  also have "\<dots> = twosampleE (\<lambda>i j. Fin (Euclidean_distance x d i j)) (sizes 0) (sizes 1)
        (\<lambda>i. i) (\<lambda>j. sizes 0 + j) 0"
  proof (rule twosampleE_cong)
    fix i j
    assume "0 \<le> i" "i < ?N" "0 \<le> j" "j < ?N"
    then have "d \<le> 0 \<or> (cint (i * d) = i * d \<and> cint (j * d) = j * d)"
      using in_range [of i] in_range [of j] by auto
    then show "row_distance (\<lambda>k. Fin (x k)) d i j = Fin (Euclidean_distance x d i j)"
      by (rule row_distance_Euclidean)
  qed
  finally show ?thesis .
qed

theorem E2sample_refines_twosampleE_witness:
  "E2sample (\<lambda>i. Fin (line6 i)) (\<lambda>k. 3) 1 =
     twosampleE (\<lambda>i j. Fin (Euclidean_distance line6 1 i j)) 3 3 (\<lambda>i. i) (\<lambda>j. 3 + j) 0"
  using E2sample_refines_twosampleE [of "\<lambda>k. 3" 1 line6]
  by (simp add: is_cint_def)

section \<open>The permutation test, phase by phase\<close>

lemma init_perm_loop: "for_loop 0 N (\<lambda>i perm. perm(i := i)) (\<lambda>i. 0) = identity_upto N"
proof (cases "0 \<le> N")
  case True
  let ?P = "\<lambda>k (p :: int \<Rightarrow> int). p = identity_upto k"
  have "?P N (for_loop 0 N (\<lambda>i perm. perm(i := i)) (\<lambda>i. 0))"
  proof (rule for_loop_invariant [where P = ?P])
    show "?P 0 (\<lambda>i. 0)" by (auto simp: identity_upto_def)
    show "0 \<le> N" by fact
  next
    fix k :: int and t :: "int \<Rightarrow> int"
    assume "0 \<le> k" "k < N" "?P k t"
    then show "?P (k + 1) (t(k := k))" by (auto simp: identity_upto_def)
  qed
  then show ?thesis .
next
  case False
  then show ?thesis by (auto simp: for_loop_empty identity_upto_def)
qed

lemma for_loop_snoc: "i \<le> k \<Longrightarrow> for_loop i (k + 1) body s = body k (for_loop i k body s)"
proof (induction i "k + 1" body s rule: for_loop.induct)
  case (1 i body s)
  show ?case
  proof (cases "i < k")
    case True
    then have "for_loop (i + 1) (k + 1) body (body i s) = body k (for_loop (i + 1) k body (body i s))"
      using 1 by simp
    with True show ?thesis
      by (subst for_loop.simps, subst (2) for_loop.simps) simp
  next
    case False
    with 1(2) have "i = k" by simp
    then show ?thesis
      by (subst for_loop.simps, simp add: for_loop_empty)
  qed
qed

text \<open>What one replicate does to each field.\<close>

lemma replicate_body_fields:
  "x_buf (replicate_body ext K sizes N U b s) = x_buf s"
  "D_mat (replicate_body ext K sizes N U b s) = D_mat s"
  "e0_out (replicate_body ext K sizes N U b s) = e0_out s"
  "pval_out (replicate_body ext K sizes N U b s) = pval_out s"
  "perm_arr (replicate_body ext K sizes N U b s) = fst (permute ext (rng_state s) (perm_arr s) N)"
  "rng_state (replicate_body ext K sizes N U b s) = snd (permute ext (rng_state s) (perm_arr s) N)"
  "e_out (replicate_body ext K sizes N U b s) =
     (e_out s)(b := multisampleE (D_mat s) K sizes (fst (permute ext (rng_state s) (perm_arr s) N)) U)"
  "ek_cnt (replicate_body ext K sizes N U b s) =
     (if e0_out s < multisampleE (D_mat s) K sizes (fst (permute ext (rng_state s) (perm_arr s) N)) U
      then cint (ek_cnt s + 1) else ek_cnt s)"
  by (simp_all add: replicate_body_def Let_def split: prod.split)

lemma count_step:
  fixes P :: "int \<Rightarrow> bool"
  assumes "0 \<le> k"
  shows "int (card {b \<in> {0..<k + 1}. P b}) = int (card {b \<in> {0..<k}. P b}) + (if P k then 1 else 0)"
proof (cases "P k")
  case True
  then have "{b \<in> {0..<k + 1}. P b} = insert k {b \<in> {0..<k}. P b}"
    using assms by (auto simp: less_le)
  moreover have "finite {b \<in> {0..<k}. P b}"
    by (rule finite_subset [where B = "{0..<k}"]) auto
  moreover have "k \<notin> {b \<in> {0..<k}. P b}" by simp
  ultimately show ?thesis using True by (simp only: card_insert_disjoint) simp
next
  case False
  then have "{b \<in> {0..<k + 1}. P b} = {b \<in> {0..<k}. P b}"
    using assms by (auto simp: less_le)
  with False show ?thesis by simp
qed

lemma count_le:
  fixes P :: "int \<Rightarrow> bool"
  assumes "0 \<le> k"
  shows "int (card {b \<in> {0..<k}. P b}) \<le> k"
proof -
  have "card {b \<in> {0..<k}. P b} \<le> card {0..<k}" by (intro card_mono) auto
  with assms show ?thesis by simp
qed

lemma replicate_loop:
  fixes ext :: "'g externals" and s :: "'g driver" and K N U R :: int and sizes :: "int \<Rightarrow> int"
  assumes R: "0 \<le> R"
  defines "t \<equiv> for_loop 0 R (replicate_body ext K sizes N U) s"
  defines "pg \<equiv> (perm_arr s, rng_state s)"
  shows "x_buf t = x_buf s" and "D_mat t = D_mat s" and "e0_out t = e0_out s"
    and "pval_out t = pval_out s"
    and "(perm_arr t, rng_state t) = shuffled ext N (nat R) pg"
    and "e_out t = (\<lambda>b. if 0 \<le> b \<and> b < R
           then replicate_stat ext (D_mat s) K sizes N U pg b else e_out s b)"
    and "is_cint R \<Longrightarrow> ek_cnt s = 0 \<Longrightarrow> ek_cnt t =
           int (card {b \<in> {0..<R}. e0_out s < replicate_stat ext (D_mat s) K sizes N U pg b})"
proof -
  let ?stat = "replicate_stat ext (D_mat s) K sizes N U pg"
  let ?P = "\<lambda>k t. x_buf t = x_buf s \<and> D_mat t = D_mat s \<and> e0_out t = e0_out s
      \<and> pval_out t = pval_out s
      \<and> (perm_arr t, rng_state t) = shuffled ext N (nat k) pg
      \<and> e_out t = (\<lambda>b. if 0 \<le> b \<and> b < k then ?stat b else e_out s b)
      \<and> (is_cint R \<and> ek_cnt s = 0
            \<longrightarrow> ek_cnt t = int (card {b \<in> {0..<k}. e0_out s < ?stat b}))"
  have "?P R t"
    unfolding t_def
  proof (rule for_loop_invariant [where P = ?P])
    show "?P 0 s" by (auto simp: pg_def fun_eq_iff)
    show "0 \<le> R" by fact
  next
    fix k :: int and u :: "'g driver"
    assume k: "0 \<le> k" "k < R" and u: "?P k u"
    let ?u' = "replicate_body ext K sizes N U k u"
    have nat: "nat (k + 1) = Suc (nat k)" using k by simp
    have sh: "shuffled ext N (Suc (nat k)) pg = permute ext (rng_state u) (perm_arr u) N"
      using u by (simp split: prod.split) (metis fst_conv snd_conv)
    have st: "multisampleE (D_mat u) K sizes (fst (permute ext (rng_state u) (perm_arr u) N)) U
        = ?stat k"
      using u k sh by (simp add: replicate_stat_def)
    have st': "multisampleE (D_mat s) K sizes (fst (permute ext (rng_state u) (perm_arr u) N)) U
        = ?stat k"
      using st u by simp
    have e: "e_out ?u' = (\<lambda>b. if 0 \<le> b \<and> b < k + 1 then ?stat b else e_out s b)"
      using u k by (auto simp: replicate_body_fields st fun_eq_iff)
    have c: "ek_cnt ?u' = int (card {b \<in> {0..<k + 1}. e0_out s < ?stat b})"
      if "is_cint R" "ek_cnt s = 0"
    proof -
      have cnt: "ek_cnt u = int (card {b \<in> {0..<k}. e0_out s < ?stat b})"
        using u that by simp
      have "ek_cnt u \<le> k" unfolding cnt using k(1) by (rule count_le)
      with k that(1) have "cint (ek_cnt u + 1) = ek_cnt u + 1"
        by (intro cint_id) (auto simp: is_cint_def cnt)
      then have "ek_cnt ?u' = (if e0_out s < ?stat k then ek_cnt u + 1 else ek_cnt u)"
        using u by (simp add: replicate_body_fields st')
      also have "\<dots> = int (card {b \<in> {0..<k}. e0_out s < ?stat b})
          + (if e0_out s < ?stat k then 1 else 0)"
        by (cases "e0_out s < ?stat k") (simp_all only: cnt if_True if_False add_0_right)
      also have "\<dots> = int (card {b \<in> {0..<k + 1}. e0_out s < ?stat b})"
        by (rule count_step [OF k(1), symmetric])
      finally show ?thesis .
    qed
    show "?P (k + 1) ?u'"
      using u e c by (simp add: replicate_body_fields nat sh [symmetric] del: shuffled.simps)
  qed
  then show "x_buf t = x_buf s" and "D_mat t = D_mat s" and "e0_out t = e0_out s"
    and "pval_out t = pval_out s"
    and "(perm_arr t, rng_state t) = shuffled ext N (nat R) pg"
    and "e_out t = (\<lambda>b. if 0 \<le> b \<and> b < R then ?stat b else e_out s b)"
    and "is_cint R \<Longrightarrow> ek_cnt s = 0
      \<Longrightarrow> ek_cnt t = int (card {b \<in> {0..<R}. e0_out s < ?stat b})"
    by simp_all
qed

lemma ksampleEtest_unfold:
  fixes ext :: "'g externals" and s :: "'g driver"
    and K d byrow R U :: int and sizes :: "int \<Rightarrow> int"
  defines "N \<equiv> pooled_N K sizes"
  defines "D0 \<equiv> distance_matrix ext (x_buf s) N d byrow"
  defines "s1 \<equiv> s\<lparr>perm_arr := identity_upto N, D_mat := D0,
                     e0_out := multisampleE D0 K sizes (identity_upto N) U\<rparr>"
  defines "t \<equiv> for_loop 0 R (replicate_body ext K sizes N U) (s1\<lparr>ek_cnt := 0\<rparr>)"
  shows "ksampleEtest ext byrow K sizes d R U s =
    (if 0 < R
     then t\<lparr>pval_out := double_of_int (cint (ek_cnt t + 1)) / double_of_int (cint (R + 1))\<rparr>
     else s1)"
  by (simp add: ksampleEtest_def Let_def pooled_N_def [symmetric] init_perm_loop
      distance_matrix_def [symmetric] N_def D0_def s1_def t_def)

lemma ksampleEtest_run:
  fixes ext :: "'g externals" and s :: "'g driver"
    and K d byrow R U :: int and sizes :: "int \<Rightarrow> int"
  defines "N \<equiv> pooled_N K sizes"
  defines "D0 \<equiv> distance_matrix ext (x_buf s) N d byrow"
  defines "pg \<equiv> (identity_upto N, rng_state s)"
  defines "r \<equiv> ksampleEtest ext byrow K sizes d R U s"
  shows "x_buf r = x_buf s" and "D_mat r = D0"
    and "e0_out r = multisampleE D0 K sizes (identity_upto N) U"
    and "(perm_arr r, rng_state r) = shuffled ext N (nat R) pg"
    and "e_out r = (\<lambda>b. if 0 \<le> b \<and> b < R
           then replicate_stat ext D0 K sizes N U pg b else e_out s b)"
    and "R \<le> 0 \<Longrightarrow> pval_out r = pval_out s"
    and "0 < R \<Longrightarrow> is_cint R \<Longrightarrow> pval_out r =
           double_of_int (cint (int (card {b \<in> {0..<R}. e0_out r < e_out r b}) + 1))
             / double_of_int (cint (R + 1))"
proof -
  define s1 where "s1 = s\<lparr>perm_arr := identity_upto N, D_mat := D0,
                     e0_out := multisampleE D0 K sizes (identity_upto N) U\<rparr>"
  define t where "t = for_loop 0 R (replicate_body ext K sizes N U) (s1\<lparr>ek_cnt := 0\<rparr>)"
  have r: "r = (if 0 < R
     then t\<lparr>pval_out := double_of_int (cint (ek_cnt t + 1)) / double_of_int (cint (R + 1))\<rparr>
     else s1)"
    unfolding r_def t_def s1_def D0_def N_def by (rule ksampleEtest_unfold)
  have pg: "pg = (perm_arr (s1\<lparr>ek_cnt := 0\<rparr>), rng_state (s1\<lparr>ek_cnt := 0\<rparr>))"
    by (simp add: pg_def s1_def)
  note loop = replicate_loop [where R = R and ext = ext and K = K and sizes = sizes and N = N
      and U = U and s = "s1\<lparr>ek_cnt := 0\<rparr>", folded t_def pg]
  show "x_buf r = x_buf s"
    using loop(1) by (cases "0 < R") (simp_all add: r s1_def)
  show D: "D_mat r = D0"
    using loop(2) by (cases "0 < R") (simp_all add: r s1_def)
  show e0: "e0_out r = multisampleE D0 K sizes (identity_upto N) U"
    using loop(3) by (cases "0 < R") (simp_all add: r s1_def)
  show "(perm_arr r, rng_state r) = shuffled ext N (nat R) pg"
    using loop(5) by (cases "0 < R") (simp_all add: r s1_def pg_def)
  show e: "e_out r = (\<lambda>b. if 0 \<le> b \<and> b < R
           then replicate_stat ext D0 K sizes N U pg b else e_out s b)"
    using loop(6) by (cases "0 < R") (auto simp: r s1_def fun_eq_iff)
  show "pval_out r = pval_out s" if "R \<le> 0"
    using that by (simp add: r s1_def)
  show "pval_out r =
           double_of_int (cint (int (card {b \<in> {0..<R}. e0_out r < e_out r b}) + 1))
             / double_of_int (cint (R + 1))" if R: "0 < R" "is_cint R"
  proof -
    have "ek_cnt t = int (card {b \<in> {0..<R}.
        e0_out (s1\<lparr>ek_cnt := 0\<rparr>) < replicate_stat ext (D_mat (s1\<lparr>ek_cnt := 0\<rparr>)) K sizes N U pg b})"
      using loop(7) R by simp
    also have "{b \<in> {0..<R}.
        e0_out (s1\<lparr>ek_cnt := 0\<rparr>) < replicate_stat ext (D_mat (s1\<lparr>ek_cnt := 0\<rparr>)) K sizes N U pg b}
        = {b \<in> {0..<R}. e0_out r < e_out r b}"
      unfolding e0 e by (auto simp: s1_def)
    finally show ?thesis using R by (simp add: r)
  qed
qed

lemma double_le_not_less: "x \<le> y \<Longrightarrow> \<not> y < x" for x y :: double
  by (cases x; cases y; simp)

lemma double_of_int_divide:
  "b \<noteq> 0 \<Longrightarrow> double_of_int a / double_of_int b = Fin (of_int a / of_int b)"
  by (simp add: double_of_int_def)

lemma shuffled_bij:
  assumes "\<forall>g p. bij_betw p {0..<N} {0..<N} \<longrightarrow> bij_betw (fst (permute ext g p N)) {0..<N} {0..<N}"
    and "bij_betw (fst pg) {0..<N} {0..<N}"
  shows "bij_betw (fst (shuffled ext N k pg)) {0..<N} {0..<N}"
proof (induction k)
  case 0
  show ?case using assms(2) by simp
next
  case (Suc k)
  obtain p g where pg: "shuffled ext N k pg = (p, g)" by (cases "shuffled ext N k pg")
  with Suc assms(1) show ?case by simp
qed

lemma identity_upto_bij: "bij_betw (identity_upto N) {0..<N} {0..<N}"
  by (rule bij_betw_byWitness [where f' = "\<lambda>i. i"]) (auto simp: identity_upto_def)

lemma multisampleE_loops:
  "multisampleE D K sizes perm u =
    (let M = for_loop 1 K (\<lambda>k M. M(k := cint (M (k - 1) + sizes (k - 1)))) ((\<lambda>k. 0)(0 := 0))
     in \<Sum>i = 0..<K. \<Sum>j = i + 1..<K.
          twosampleE D (sizes i) (sizes j) (\<lambda>t. perm (M i + t)) (\<lambda>t. perm (M j + t)) u)"
  by (simp add: multisampleE_def Let_def for_loop_sum2 zero_double_def [symmetric])

lemma multisampleE_one_group: "multisampleE D 1 sizes perm u = Fin 0"
  by (simp add: multisampleE_loops ivl2 Let_def zero_double_def)

lemma multisampleE_empty_group:
  "sizes 0 < 1 \<or> sizes 1 < 1 \<Longrightarrow> multisampleE D 2 sizes perm u = Fin 0"
  by (simp add: multisampleE_loops ivl2 Let_def twosampleE_def)

section \<open>A sample run\<close>

text \<open>
  Two groups of three points, the distance matrix passed by rows, the collaborators
  \<open>demo_ext\<close>: the observed statistic is \<open>82 / 3\<close>, and the first two replicates, on
  the array rotated once and twice, are \<open>14 / 3\<close>.
\<close>

lemma pooled_N_demo: "pooled_N 2 (\<lambda>k. 3) = 6"
  by (simp add: pooled_N_def for_loop.simps cint_def)

lemma demo_matrix:
  "0 \<le> j \<Longrightarrow> j < 6 \<Longrightarrow>
   distance_matrix demo_ext (x_buf demo_state) 6 0 1 i j = Fin \<bar>line6 i - line6 j\<bar>"
  by (simp add: distance_matrix_def demo_ext_def demo_state_def)

lemma demo_stat:
  assumes "\<forall>i\<in>{0..<6}. 0 \<le> p i \<and> p i < 6"
  shows "multisampleE (distance_matrix demo_ext (x_buf demo_state) 6 0 1) 2 (\<lambda>k. 3) p 0
    = twosampleE (\<lambda>i j. Fin \<bar>line6 i - line6 j\<bar>) 3 3 (\<lambda>t. p t) (\<lambda>t. p (3 + t)) 0"
proof -
  have "\<forall>k\<in>{0..<2}. is_cint (group_offset (\<lambda>k. 3) k)"
    by (simp add: ivl2 group_offset_def is_cint_def)
  then show ?thesis
    using assms by (simp add: multisampleE_sums ivl2 ivl3 group_offset_def twosampleE_sums demo_matrix)
qed

lemma ivl6: "{0..<6::int} = {0, 1, 2, 3, 4, 5}"
  by auto

lemma twosampleE_finite:
  assumes "1 \<le> m" "m \<le> 46340" "1 \<le> n" "n \<le> 46340"
  shows "twosampleE (\<lambda>i j. Fin (D i j)) m n xrows yrows 0 =
     Fin (of_int (m * n) / of_int (m + n)
       * (2 * ((\<Sum>i = 0..<m. \<Sum>j = 0..<n. D (xrows i) (yrows j)) / of_int (m * n))
          - 2 / of_int (m * m) * (\<Sum>i = 0..<m. \<Sum>j = i + 1..<m. D (xrows i) (xrows j))
          - 2 / of_int (n * n) * (\<Sum>i = 0..<n. \<Sum>j = i + 1..<n. D (yrows i) (yrows j))))"
proof -
  note r = sizes_in_range [OF assms] sizes_in_range [OF assms(1,2) assms(1,2)]
    sizes_in_range [OF assms(3,4) assms(3,4)]
  show ?thesis
    using assms by (simp add: twosampleE_sums r sum_Fin double_of_int_def Let_def mult.commute)
qed

lemma demo_e0:
  "multisampleE (distance_matrix demo_ext (x_buf demo_state) 6 0 1) 2 (\<lambda>k. 3) (identity_upto 6) 0
    = Fin (82 / 3)"
  by (subst demo_stat) (simp_all add: ivl6 ivl3 identity_upto_def twosampleE_finite line6_def)

lemma demo_e:
  "multisampleE (distance_matrix demo_ext (x_buf demo_state) 6 0 1) 2 (\<lambda>k. 3)
     (\<lambda>i. identity_upto 6 ((i + 1) mod 6)) 0 = Fin (14 / 3)"
  "multisampleE (distance_matrix demo_ext (x_buf demo_state) 6 0 1) 2 (\<lambda>k. 3)
     (\<lambda>i. identity_upto 6 (((i + 1) mod 6 + 1) mod 6)) 0 = Fin (14 / 3)"
  by (subst demo_stat; simp add: ivl6 ivl3 identity_upto_def twosampleE_finite line6_def)+

lemma demo_permute: "permute demo_ext g p n = (\<lambda>i. p ((i + 1) mod n), Suc g)"
  by (simp add: demo_ext_def)

lemma demo_replicate_stat:
  "replicate_stat demo_ext (distance_matrix demo_ext (x_buf demo_state) 6 0 1) 2 (\<lambda>k. 3) 6 0
     (identity_upto 6, 0) 0 = Fin (14 / 3)"
  "replicate_stat demo_ext (distance_matrix demo_ext (x_buf demo_state) 6 0 1) 2 (\<lambda>k. 3) 6 0
     (identity_upto 6, 0) 1 = Fin (14 / 3)"
  by (simp_all add: replicate_stat_def demo_permute demo_e)

lemma demo_run:
  fixes R :: int
  defines "r \<equiv> ksampleEtest demo_ext 1 2 (\<lambda>k. 3) 0 R 0 demo_state"
  shows "e0_out r = Fin (82 / 3)"
    and "0 \<le> b \<Longrightarrow> b < R \<Longrightarrow> b < 2 \<Longrightarrow> e_out r b = Fin (14 / 3)"
proof -
  note run = ksampleEtest_run [where ext = demo_ext and byrow = 1 and K = 2
      and sizes = "\<lambda>k. 3" and d = 0 and R = R and U = 0 and s = demo_state, folded r_def]
  have g: "rng_state demo_state = 0" by (simp add: demo_state_def)
  show "e0_out r = Fin (82 / 3)"
    using run(3) by (simp add: pooled_N_demo demo_e0)
  assume b: "0 \<le> b" "b < R" "b < 2"
  then have "b = 0 \<or> b = 1" by auto
  moreover have "e_out r b = replicate_stat demo_ext
      (distance_matrix demo_ext (x_buf demo_state) 6 0 1) 2 (\<lambda>k. 3) 6 0 (identity_upto 6, 0) b"
    using b by (simp add: run(5) pooled_N_demo g)
  ultimately show "e_out r b = Fin (14 / 3)"
    by (auto simp only: demo_replicate_stat)
qed

lemma demo_rng: "rng_state demo_state = 0"
  by (simp add: demo_state_def)

lemma demo_permute_bij:
  assumes "bij_betw p {0..<6} {0..<6}"
  shows "bij_betw (fst (permute demo_ext g p 6)) {0..<6} {0..<6}"
proof -
  have "bij_betw (\<lambda>i::int. (i + 1) mod 6) {0..<6} {0..<6}"
    by (rule bij_betw_byWitness [where f' = "\<lambda>i. (i + 5) mod 6"]) (auto, presburger+)
  from bij_betw_trans [OF this assms] show ?thesis
    by (simp add: demo_ext_def comp_def)
qed

section \<open>The claims about the permutation test\<close>

text \<open>
  Claim C3. With \<open>R > 0\<close> replicates \<open>ksampleEtest\<close> stores the p-value
  \<open>(count + 1) / (R + 1)\<close>, where \<open>count\<close> is the number of replicates \<open>b < R\<close> with
  \<open>e0 < e[b]\<close>, a strict comparison; the p-value lies in \<open>(0, 1]\<close> and is \<open>1 / (R + 1)\<close>
  when every replicate is at most \<open>e0\<close>. With \<open>R \<le> 0\<close> the replicate loop is skipped and
  \<^verbatim>\<open>*pval\<close> and \<^verbatim>\<open>e[]\<close> are left as the caller passed them. \<open>R + 1\<close> fits an \<^verbatim>\<open>int\<close>.
\<close>

theorem ksampleEtest_pval:
  fixes ext :: "'g externals" and s :: "'g driver"
    and K d byrow R U :: int and sizes :: "int \<Rightarrow> int"
  defines "r \<equiv> ksampleEtest ext byrow K sizes d R U s"
  defines "cnt \<equiv> card {b \<in> {0..<R}. e0_out r < e_out r b}"
  assumes R: "R < 2147483647"
  shows "(0 < R \<longrightarrow>
            pval_out r = Fin ((real cnt + 1) / (of_int R + 1))
          \<and> 0 < (real cnt + 1) / (of_int R + 1) \<and> (real cnt + 1) / (of_int R + 1) \<le> 1
          \<and> ((\<forall>b\<in>{0..<R}. e_out r b \<le> e0_out r) \<longrightarrow> pval_out r = Fin (1 / (of_int R + 1))))
       \<and> (R \<le> 0 \<longrightarrow> pval_out r = pval_out s \<and> e_out r = e_out s)"
proof (intro conjI impI)
  assume pos: "0 < R"
  have le: "int cnt \<le> R" unfolding cnt_def using pos by (intro count_le) simp
  have c: "cint (int cnt + 1) = int cnt + 1" "cint (R + 1) = R + 1"
    using le pos R by (auto intro!: cint_id)
  have "is_cint R" using pos R by (simp add: is_cint_def)
  with pos have "pval_out r =
      double_of_int (cint (int cnt + 1)) / double_of_int (cint (R + 1))"
    unfolding cnt_def r_def by (rule ksampleEtest_run(7))
  with pos show p: "pval_out r = Fin ((real cnt + 1) / (of_int R + 1))"
    by (simp add: c double_of_int_divide)
  show "0 < (real cnt + 1) / (of_int R + 1)" using pos by simp
  show "(real cnt + 1) / (of_int R + 1) \<le> 1" using pos le by simp
  assume "\<forall>b\<in>{0..<R}. e_out r b \<le> e0_out r"
  then have "{b \<in> {0..<R}. e0_out r < e_out r b} = {}"
    by (auto dest: double_le_not_less)
  then have "cnt = 0" unfolding cnt_def by (simp only: card.empty)
  with p show "pval_out r = Fin (1 / (of_int R + 1))" by simp
next
  assume "R \<le> 0"
  then show "pval_out r = pval_out s" "e_out r = e_out s"
    using ksampleEtest_run(5,6) [where ext = ext and byrow = byrow and K = K and sizes = sizes
        and d = d and R = R and U = U and s = s]
    by (auto simp: r_def fun_eq_iff)
qed

theorem ksampleEtest_pval_witness:
  "pval_out (ksampleEtest demo_ext 1 2 (\<lambda>k. 3) 0 2 0 demo_state) = Fin (1 / 3)
   \<and> pval_out (ksampleEtest demo_ext 1 2 (\<lambda>k. 3) 0 0 0 demo_state) = Fin (- 1)"
proof
  let ?r = "ksampleEtest demo_ext 1 2 (\<lambda>k. 3) 0 2 0 demo_state"
  have small: "(2::int) < 2147483647" and pos: "(0::int) < 2" by simp_all
  have "\<forall>b\<in>{0..<2}. e_out ?r b \<le> e0_out ?r"
    by (simp add: demo_run)
  with pos ksampleEtest_pval [where R = 2 and ext = demo_ext and byrow = 1 and K = 2
      and sizes = "\<lambda>k. 3" and d = 0 and U = 0 and s = demo_state, OF small]
  have "pval_out ?r = Fin (1 / (of_int 2 + 1))" by blast
  then show "pval_out ?r = Fin (1 / 3)" by simp
  from ksampleEtest_pval [where R = 0 and ext = demo_ext and byrow = 1 and K = 2
      and sizes = "\<lambda>k. 3" and d = 0 and U = 0 and s = demo_state]
  show "pval_out (ksampleEtest demo_ext 1 2 (\<lambda>k. 3) 0 0 0 demo_state) = Fin (- 1)"
    by (simp add: demo_state_def)
qed

text \<open>
  Claim C4, as the specification states it: \<open>ksampleEtest\<close> rejects an invalid
  configuration before any computation. The source has no validation. With one group of
  six points (\<open>K = 1\<close>, invalid) the call returns with the observed statistic \<open>0\<close> stored
  over the caller's \<open>-1\<close>.
\<close>

theorem ksampleEtest_rejects_counterexample:
  "\<not> spec_rejects demo_ext 1 1 (\<lambda>k. 6) 0 0 0 demo_state"
proof -
  have "e0_out (ksampleEtest demo_ext 1 1 (\<lambda>k. 6) 0 0 0 demo_state) = Fin 0"
    using ksampleEtest_run(3) [where ext = demo_ext and byrow = 1 and K = 1 and sizes = "\<lambda>k. 6"
        and d = 0 and R = 0 and U = 0 and s = demo_state]
    by (simp add: multisampleE_one_group)
  moreover have "e0_out demo_state = Fin (- 1)" by (simp add: demo_state_def)
  ultimately have "ksampleEtest demo_ext 1 1 (\<lambda>k. 6) 0 0 0 demo_state \<noteq> demo_state"
    by auto
  then show ?thesis by (simp add: spec_rejects_def spec_invalid_config_def)
qed

text \<open>
  Claim C4, amended. \<open>ksampleEtest\<close> does not validate its configuration. For a call
  with at least one group, no negative size and a pooled size from \<open>1\<close> up to the largest
  \<^verbatim>\<open>int\<close> (so that every array of the call has a positive length) an invalid
  configuration is not rejected and the results are stored: with \<open>K = 1\<close> there is no
  pair of groups and the observed statistic is \<open>0\<close>; with \<open>K = 2\<close> and an empty group the
  single pair contributes \<open>0\<close>; with \<open>R < 0\<close> the replicate loop is skipped as for
  \<open>R = 0\<close>, and \<^verbatim>\<open>e[]\<close>, \<^verbatim>\<open>*pval\<close> and the generator are left untouched. (With \<open>K < 1\<close> or
  a pooled size below \<open>1\<close> an array of the call has no positive length: \<^verbatim>\<open>Calloc\<close> of R
  raises its allocation error for a negative length, and \<^verbatim>\<open>M[0]\<close> is outside an array of
  length \<open>0\<close>. These calls are outside the model.)
\<close>

theorem ksampleEtest_no_validation:
  fixes ext :: "'g externals" and s :: "'g driver"
    and K d byrow R U :: int and sizes :: "int \<Rightarrow> int"
  defines "r \<equiv> ksampleEtest ext byrow K sizes d R U s"
  assumes "1 \<le> K" and "\<forall>k\<in>{0..<K}. 0 \<le> sizes k"
    and "1 \<le> group_offset sizes K" and "is_cint (group_offset sizes K)"
  shows "(K = 1 \<longrightarrow> e0_out r = Fin 0)
    \<and> (K = 2 \<and> (sizes 0 < 1 \<or> sizes 1 < 1) \<longrightarrow> e0_out r = Fin 0)
    \<and> (R < 0 \<longrightarrow> e_out r = e_out s \<and> pval_out r = pval_out s \<and> rng_state r = rng_state s)"
proof -
  note run = ksampleEtest_run [where ext = ext and byrow = byrow and K = K and sizes = sizes
      and d = d and R = R and U = U and s = s, folded r_def]
  have "e0_out r = Fin 0" if "K = 1"
    using run(3) that by (simp add: multisampleE_one_group)
  moreover have "e0_out r = Fin 0" if "K = 2" "sizes 0 < 1 \<or> sizes 1 < 1"
    using run(3) that by (simp add: multisampleE_empty_group)
  moreover have "e_out r = e_out s \<and> pval_out r = pval_out s \<and> rng_state r = rng_state s"
    if "R < 0"
  proof -
    from that have "nat R = 0" by simp
    with run(4) have "rng_state r = rng_state s" by simp
    moreover have "e_out r = e_out s" using run(5) that by (auto simp: fun_eq_iff)
    moreover have "pval_out r = pval_out s" using run(6) that by simp
    ultimately show ?thesis by simp
  qed
  ultimately show ?thesis by blast
qed

theorem ksampleEtest_no_validation_witness:
  "e0_out (ksampleEtest demo_ext 1 1 (\<lambda>k. 6) 0 (- 1) 0 demo_state) = Fin 0
   \<and> pval_out (ksampleEtest demo_ext 1 1 (\<lambda>k. 6) 0 (- 1) 0 demo_state) = Fin (- 1)
   \<and> e0_out (ksampleEtest demo_ext 1 2 (\<lambda>k. if k = 0 then 0 else 6) 0 0 0 demo_state) = Fin 0"
  using ksampleEtest_no_validation [where K = 1 and ext = demo_ext and byrow = 1
      and sizes = "\<lambda>k. 6" and d = 0 and R = "- 1" and U = 0 and s = demo_state]
    ksampleEtest_no_validation [where K = 2 and ext = demo_ext and byrow = 1
      and sizes = "\<lambda>k. if k = 0 then 0 else 6" and d = 0 and R = 0 and U = 0 and s = demo_state]
  by (simp add: demo_state_def group_offset_def is_cint_def ivl2)

text \<open>
  Claim C8. With \<open>d = 0\<close> (the source tests \<open>d > 0\<close>, so also for \<open>d < 0\<close>) the matrix
  \<^verbatim>\<open>D\<close> is the caller's buffer as \<^verbatim>\<open>vector2matrix\<close> reshapes it into \<open>N\<close> by \<open>N\<close>;
  \<^verbatim>\<open>distance\<close> is not called. No assignment of \<^verbatim>\<open>ksampleEtest\<close> writes the buffer or,
  after the setup, the matrix: at the return both are as they were, and the observed
  statistic and every replicate were computed from that one matrix.
\<close>

theorem ksampleEtest_distance_passthrough:
  fixes ext :: "'g externals" and s :: "'g driver"
    and K d byrow R U :: int and sizes :: "int \<Rightarrow> int"
  defines "r \<equiv> ksampleEtest ext byrow K sizes d R U s"
  defines "N \<equiv> pooled_N K sizes"
  defines "D \<equiv> vector2matrix ext (x_buf s) N N byrow"
  assumes d: "d \<le> 0"
  shows "x_buf r = x_buf s \<and> D_mat r = D
    \<and> e0_out r = multisampleE D K sizes (identity_upto N) U
    \<and> (\<forall>b\<in>{0..<R}. e_out r b =
          multisampleE D K sizes
            (fst (shuffled ext N (nat b + 1) (identity_upto N, rng_state s))) U)"
proof -
  have D: "distance_matrix ext (x_buf s) N d byrow = D"
    using d by (simp add: distance_matrix_def D_def)
  show ?thesis
    using ksampleEtest_run(1,2,3,5) [where ext = ext and byrow = byrow and K = K
        and sizes = sizes and d = d and R = R and U = U and s = s]
    by (simp add: r_def [symmetric] N_def [symmetric] D replicate_stat_def)
qed

theorem ksampleEtest_distance_passthrough_witness:
  "x_buf (ksampleEtest demo_ext 1 2 (\<lambda>k. 3) 0 2 0 demo_state) = x_buf demo_state
   \<and> D_mat (ksampleEtest demo_ext 1 2 (\<lambda>k. 3) 0 2 0 demo_state)
       = vector2matrix demo_ext (x_buf demo_state) 6 6 1
   \<and> e0_out (ksampleEtest demo_ext 1 2 (\<lambda>k. 3) 0 2 0 demo_state) = Fin (82 / 3)
   \<and> e_out (ksampleEtest demo_ext 1 2 (\<lambda>k. 3) 0 2 0 demo_state) 1 = Fin (14 / 3)"
  using ksampleEtest_distance_passthrough [where R = 2 and ext = demo_ext and byrow = 1 and K = 2
      and sizes = "\<lambda>k. 3" and d = 0 and U = 0 and s = demo_state]
    demo_e0 demo_replicate_stat(2)
  by (simp add: pooled_N_demo replicate_stat_def distance_matrix_def demo_rng)

text \<open>
  Claim C9. Provided \<^verbatim>\<open>permute\<close> turns a bijection on \<open>{0, \<dots>, N - 1}\<close> into a
  bijection, the permutation array is a bijection on \<open>{0, \<dots>, N - 1}\<close> wherever a
  statistic is computed: it is the identity for the observed statistic, and after each
  number \<open>k\<close> of shuffles it is a bijection; replicate \<open>b\<close> is computed on the array after
  \<open>b + 1\<close> shuffles, and the array at the return is the one after \<open>R\<close> shuffles.
\<close>

theorem ksampleEtest_perm_bijection:
  fixes ext :: "'g externals" and s :: "'g driver"
    and K d byrow R U :: int and sizes :: "int \<Rightarrow> int"
  defines "r \<equiv> ksampleEtest ext byrow K sizes d R U s"
  defines "N \<equiv> pooled_N K sizes"
  defines "perm_after \<equiv> \<lambda>k. fst (shuffled ext N k (identity_upto N, rng_state s))"
  assumes permute_ok:
    "\<forall>g p. bij_betw p {0..<N} {0..<N} \<longrightarrow> bij_betw (fst (permute ext g p N)) {0..<N} {0..<N}"
  shows "(\<forall>i\<in>{0..<N}. perm_after 0 i = i)
    \<and> (\<forall>k. bij_betw (perm_after k) {0..<N} {0..<N})
    \<and> e0_out r = multisampleE (D_mat r) K sizes (perm_after 0) U
    \<and> (\<forall>b\<in>{0..<R}. e_out r b = multisampleE (D_mat r) K sizes (perm_after (nat b + 1)) U)
    \<and> perm_arr r = perm_after (nat R)"
proof (intro conjI)
  show "\<forall>i\<in>{0..<N}. perm_after 0 i = i"
    by (simp add: perm_after_def identity_upto_def)
  show "\<forall>k. bij_betw (perm_after k) {0..<N} {0..<N}"
    unfolding perm_after_def
    by (intro allI shuffled_bij [OF permute_ok]) (simp add: identity_upto_bij)
  note run = ksampleEtest_run [where ext = ext and byrow = byrow and K = K and sizes = sizes
      and d = d and R = R and U = U and s = s, folded r_def N_def]
  show "e0_out r = multisampleE (D_mat r) K sizes (perm_after 0) U"
    using run(2,3) by (simp add: perm_after_def)
  show "\<forall>b\<in>{0..<R}. e_out r b = multisampleE (D_mat r) K sizes (perm_after (nat b + 1)) U"
    using run(2,5) by (simp add: perm_after_def replicate_stat_def)
  show "perm_arr r = perm_after (nat R)"
    using run(4) by (simp add: perm_after_def) (metis fst_conv)
qed

theorem ksampleEtest_perm_bijection_witness:
  "bij_betw (perm_arr (ksampleEtest demo_ext 1 2 (\<lambda>k. 3) 0 2 0 demo_state)) {0..<6} {0..<6}
   \<and> perm_arr (ksampleEtest demo_ext 1 2 (\<lambda>k. 3) 0 2 0 demo_state) 0 = 2
   \<and> e_out (ksampleEtest demo_ext 1 2 (\<lambda>k. 3) 0 2 0 demo_state) 0
       = multisampleE (D_mat (ksampleEtest demo_ext 1 2 (\<lambda>k. 3) 0 2 0 demo_state)) 2 (\<lambda>k. 3)
           (\<lambda>i. identity_upto 6 ((i + 1) mod 6)) 0"
proof -
  let ?r = "ksampleEtest demo_ext 1 2 (\<lambda>k. 3) 0 2 0 demo_state"
  let ?after = "\<lambda>k. fst (shuffled demo_ext 6 k (identity_upto 6, 0))"
  have ok: "\<forall>g p. bij_betw p {0..<6} {0..<6}
      \<longrightarrow> bij_betw (fst (permute demo_ext g p 6)) {0..<6} {0..<6}"
    by (simp add: demo_permute_bij)
  note t = ksampleEtest_perm_bijection [where R = 2 and ext = demo_ext and byrow = 1 and K = 2
      and sizes = "\<lambda>k. 3" and d = 0 and U = 0 and s = demo_state,
      unfolded pooled_N_demo demo_rng, OF ok]
  from t have p: "perm_arr ?r = ?after (nat 2)" by blast
  from t have "bij_betw (?after (nat 2)) {0..<6} {0..<6}" by blast
  with p have 1: "bij_betw (perm_arr ?r) {0..<6} {0..<6}" by simp
  have 2: "perm_arr ?r 0 = 2"
    unfolding p by (simp add: numeral_2_eq_2 demo_permute identity_upto_def)
  have "(0::int) \<in> {0..<2}" by simp
  with t have "e_out ?r 0 = multisampleE (D_mat ?r) 2 (\<lambda>k. 3) (?after (nat 0 + 1)) 0" by blast
  then have 3: "e_out ?r 0 = multisampleE (D_mat ?r) 2 (\<lambda>k. 3)
      (\<lambda>i. identity_upto 6 ((i + 1) mod 6)) 0"
    by (simp add: demo_permute)
  from 1 2 3 show ?thesis by blast
qed

end
